theory Spec2Isabelle
  imports Complex_Main "HOL-Library.AList"
begin

section \<open>JavaScript values\<close>

text \<open>
  The engine passes untyped JSON-like values around (\<^verbatim>\<open>any\<close> in the source): node
  configurations, handler results and the execution context. They are modelled by one
  datatype. Numbers are the integers (delays, status codes, record counts; no fractional
  number is produced by the modelled code), an object is an association list in property
  insertion order with distinct keys, and \<open>JTime t\<close> stands for the ISO-8601 string that
  \<^verbatim>\<open>new Date().toISOString()\<close> renders when the clock reads \<open>t\<close> milliseconds.
\<close>

datatype jsval =
    JUndefined
  | JNull
  | JBool bool
  | JNum int
  | JStr string
  | JTime nat
  | JArr "jsval list"
  | JObj "(string \<times> jsval) list"

text \<open>Truthiness, as the operators \<^verbatim>\<open>||\<close> and \<^verbatim>\<open>if\<close> of the source test it.\<close>

fun truthy :: "jsval \<Rightarrow> bool" where
  "truthy JUndefined = False"
| "truthy JNull = False"
| "truthy (JBool b) = b"
| "truthy (JNum n) = (n \<noteq> 0)"
| "truthy (JStr s) = (s \<noteq> [])"
| "truthy (JTime t) = True"
| "truthy (JArr xs) = True"
| "truthy (JObj kvs) = True"

text \<open>\<^verbatim>\<open>a || b\<close>\<close>

definition js_or :: "jsval \<Rightarrow> jsval \<Rightarrow> jsval" where
  "js_or a b = (if truthy a then a else b)"

text \<open>
  \<^verbatim>\<open>o?.k\<close>: property \<open>k\<close> of \<open>o\<close>, \<^verbatim>\<open>undefined\<close> when \<open>o\<close> is \<^verbatim>\<open>null\<close> or
  \<^verbatim>\<open>undefined\<close> or has no such property.
\<close>

fun js_get :: "jsval \<Rightarrow> string \<Rightarrow> jsval" where
  "js_get (JObj kvs) k = (case map_of kvs k of None \<Rightarrow> JUndefined | Some v \<Rightarrow> v)"
| "js_get v k = JUndefined"

text \<open>
  Object spread \<^verbatim>\<open>{ ...a, ...b }\<close>: the properties of \<open>a\<close>, then those of \<open>b\<close>, a key of
  \<open>b\<close> that \<open>a\<close> has overwriting the value in place. Spreading a value that is not an
  object contributes nothing.
\<close>

fun props :: "jsval \<Rightarrow> (string \<times> jsval) list" where
  "props (JObj kvs) = kvs"
| "props v = []"

definition assign :: "(string \<times> jsval) list \<Rightarrow> (string \<times> jsval) list \<Rightarrow> (string \<times> jsval) list" where
  "assign a b = foldl (\<lambda>acc (k, v). AList.update k v acc) a b"

definition spread :: "jsval \<Rightarrow> jsval \<Rightarrow> jsval" where
  "spread a b = JObj (assign (assign [] (props a)) (props b))"

section \<open>Thrown values and the runtime\<close>

text \<open>
  A thrown value: an \<^verbatim>\<open>Error\<close> object with its message, a \<^verbatim>\<open>TypeError\<close> (which is an
  \<^verbatim>\<open>Error\<close> too), or any other value. \<open>message_of\<close> is
  \<^verbatim>\<open>error instanceof Error ? error.message : 'Unknown error'\<close>.
\<close>

datatype exn = Error string | TypeError string | Thrown jsval

fun message_of :: "exn \<Rightarrow> string" where
  "message_of (Error m) = m"
| "message_of (TypeError m) = m"
| "message_of (Thrown v) = ''Unknown error''"

text \<open>
  What the engine uses of the JavaScript runtime without declaring it, a parameter of the
  model: the names of the properties of \<^verbatim>\<open>Object.prototype\<close> and of \<^verbatim>\<open>Array.prototype\<close>
  other than the accessor \<^verbatim>\<open>__proto__\<close> (all of them functions), and the number that a
  string, an array or an object is coerced to (\<open>None\<close> when it is not a number).
\<close>

record runtime =
  object_names :: "string list"
  array_names :: "string list"
  to_number :: "jsval \<Rightarrow> int option"

section \<open>Graph model\<close>

text \<open>The persisted node and edge rows, with the fields the engine reads.\<close>

record node =
  nodeId :: string
  type :: string
  title :: string
  config :: jsval

record edge =
  sourceId :: string
  targetId :: string

text \<open>
  The adjacency table is a plain object, \<^verbatim>\<open>const graph: Record<string, string[]> = {}\<close>:
  its own properties in insertion order, and its prototype. The prototype is
  \<^verbatim>\<open>Object.prototype\<close> (\<open>None\<close>) until a node named \<^verbatim>\<open>__proto__\<close> is stored, which calls
  the setter of that accessor and makes the stored array the prototype (\<open>Some\<close>).
\<close>

record graph =
  own :: "(string \<times> string list) list"
  proto :: "string list option"

text \<open>An array index as a property key: decimal digits without a leading zero.\<close>

definition is_digit :: "char \<Rightarrow> bool" where
  "is_digit c = (48 \<le> (of_char c :: nat) \<and> (of_char c :: nat) \<le> 57)"

definition decimal :: "string \<Rightarrow> nat" where
  "decimal s = foldl (\<lambda>n c. 10 * n + (of_char c - 48)) 0 s"

definition parse_index :: "string \<Rightarrow> nat option" where
  "parse_index k =
     (if k \<noteq> [] \<and> list_all is_digit k \<and> (length k = 1 \<or> hd k \<noteq> CHR ''0'')
      then Some (decimal k) else None)"

text \<open>
  What \<^verbatim>\<open>graph[k]\<close> evaluates to: an own array; through \<^verbatim>\<open>__proto__\<close> the prototype,
  which is the array a node of that name stored or else \<^verbatim>\<open>Object.prototype\<close>; an
  element or the length of an array prototype; a function inherited from a prototype;
  or \<^verbatim>\<open>undefined\<close>.
\<close>

datatype property =
    Undefined
  | OwnArray "string list"
  | ProtoArray "string list"
  | ObjectPrototype
  | Function
  | Element string
  | Length nat

definition inherited :: "runtime \<Rightarrow> string list \<Rightarrow> string \<Rightarrow> property" where
  "inherited rt a k =
     (case parse_index k of
        Some i \<Rightarrow>
          if i < length a then Element (a ! i)
          else if k \<in> set (array_names rt) \<or> k \<in> set (object_names rt) then Function
          else Undefined
      | None \<Rightarrow>
          if k = ''length'' then Length (length a)
          else if k \<in> set (array_names rt) \<or> k \<in> set (object_names rt) then Function
          else Undefined)"

definition graph_get :: "runtime \<Rightarrow> graph \<Rightarrow> string \<Rightarrow> property" where
  "graph_get rt g k =
     (case map_of (own g) k of
        Some targets \<Rightarrow> OwnArray targets
      | None \<Rightarrow>
          if k = ''__proto__'' then
            (case proto g of Some a \<Rightarrow> ProtoArray a | None \<Rightarrow> ObjectPrototype)
          else
            (case proto g of
               Some a \<Rightarrow> inherited rt a k
             | None \<Rightarrow> if k \<in> set (object_names rt) then Function else Undefined))"

text \<open>
  \<^verbatim>\<open>graph[node.nodeId] = []\<close>: an own property, also when the name is inherited (the
  inherited properties are writable), except for \<^verbatim>\<open>__proto__\<close>.
\<close>

definition init_node :: "graph \<Rightarrow> node \<Rightarrow> graph" where
  "init_node g node =
     (if nodeId node = ''__proto__'' then g\<lparr>proto := Some []\<rparr>
      else g\<lparr>own := AList.update (nodeId node) [] (own g)\<rparr>)"

text \<open>
  \<^verbatim>\<open>if (graph[edge.sourceId]) { graph[edge.sourceId].push(edge.targetId) }\<close>. An array is
  truthy also when empty. A truthy value that is not an array has no \<^verbatim>\<open>push\<close>, and
  calling it throws; the message is the one V8 gives for this source text.
\<close>

definition push_error :: exn where
  "push_error = TypeError ''graph[edge.sourceId].push is not a function''"

definition add_edge :: "runtime \<Rightarrow> graph \<Rightarrow> edge \<Rightarrow> exn + graph" where
  "add_edge rt g edge =
     (case graph_get rt g (sourceId edge) of
        Undefined \<Rightarrow> Inr g
      | OwnArray targets \<Rightarrow>
          Inr (g\<lparr>own := AList.update (sourceId edge) (targets @ [targetId edge]) (own g)\<rparr>)
      | ProtoArray a \<Rightarrow> Inr (g\<lparr>proto := Some (a @ [targetId edge])\<rparr>)
      | ObjectPrototype \<Rightarrow> Inl push_error
      | Function \<Rightarrow> Inl push_error
      | Element s \<Rightarrow> if s = [] then Inr g else Inl push_error
      | Length n \<Rightarrow> if n = 0 then Inr g else Inl push_error)"

text \<open>\<^verbatim>\<open>edges.forEach(...)\<close>: the first throw ends the loop and the function.\<close>

fun add_edges :: "runtime \<Rightarrow> graph \<Rightarrow> edge list \<Rightarrow> exn + graph" where
  "add_edges rt g [] = Inr g"
| "add_edges rt g (e # es) =
     (case add_edge rt g e of Inl x \<Rightarrow> Inl x | Inr g' \<Rightarrow> add_edges rt g' es)"

definition buildExecutionGraph :: "runtime \<Rightarrow> node list \<Rightarrow> edge list \<Rightarrow> exn + graph" where
  "buildExecutionGraph rt ns es =
     add_edges rt (foldl init_node \<lparr>own = [], proto = None\<rparr> ns) es"

section \<open>The world the engine runs in\<close>

text \<open>The Slack client: the message handed to \<^verbatim>\<open>chat.postMessage\<close> and what the call does.\<close>

record slack_message =
  channel :: jsval
  msg_text :: jsval
  blocks :: jsval

datatype api_outcome =
    Responds bool jsval jsval  \<comment> \<open>the response's \<^verbatim>\<open>ok\<close>, \<^verbatim>\<open>ts\<close> and \<^verbatim>\<open>error\<close>\<close>
  | Rejects exn

record slack_config =
  botToken :: string
  defaultChannel :: string

text \<open>The rows of the workflow and execution tables that the engine reads and writes.\<close>

record workflow =
  wid :: string
  isActive :: bool
  schedule :: "string option"
  nodes :: "node list"
  edges :: "edge list"

record execution =
  workflowId :: string
  status :: string
  input :: jsval
  exec_output :: "jsval option"
  error :: "string option"
  startedAt :: nat
  completedAt :: "nat option"

text \<open>
  A write to the execution table, as the store sees it: the trace of these calls is what
  the lifecycle of a run consists of.
\<close>

datatype db_write = Created nat string | Updated nat string

text \<open>
  The state around the engine: the clock in milliseconds, the values \<^verbatim>\<open>Math.random()\<close>
  returns one after the other, the lines written by \<^verbatim>\<open>console.log\<close>, the Slack service
  singleton (client and configuration, \<open>None\<close> for \<^verbatim>\<open>null\<close>), the two tables and the
  runtime. An execution's identifier is its position in the table.
\<close>

record world =
  now :: nat
  random :: "nat \<Rightarrow> real"
  draws :: nat
  console :: "string list"
  slack_client :: "(slack_message \<Rightarrow> api_outcome) option"
  slack_settings :: "slack_config option"
  workflows :: "workflow list"
  executions :: "execution list"
  db_trace :: "db_write list"
  runtime :: runtime

text \<open>
  \<^verbatim>\<open>await new Promise(resolve => setTimeout(resolve, ms))\<close>. The runtime coerces the delay
  to a number and uses 1 ms unless it lies in \<open>[1, 2\<^sup>3\<^sup>1 - 1]\<close>; the timer does not fire
  before the delay has passed, so the clock of the model, which advances by exactly the
  delay, is a lower bound of the elapsed time. \<^verbatim>\<open>undefined\<close> is not a number, \<^verbatim>\<open>null\<close>
  and \<^verbatim>\<open>false\<close> are 0 and \<^verbatim>\<open>true\<close> is 1, all of which give 1 ms, as does a date
  string; a string, an array or an object is coerced as the runtime says.
\<close>

definition clamp_timeout :: "int \<Rightarrow> nat" where
  "clamp_timeout n = (if 1 \<le> n \<and> n \<le> 2147483647 then nat n else 1)"

fun timeout_ms :: "runtime \<Rightarrow> jsval \<Rightarrow> nat" where
  "timeout_ms rt (JNum n) = clamp_timeout n"
| "timeout_ms rt JUndefined = 1"
| "timeout_ms rt JNull = 1"
| "timeout_ms rt (JBool b) = 1"
| "timeout_ms rt (JTime t) = 1"
| "timeout_ms rt v = (case to_number rt v of Some n \<Rightarrow> clamp_timeout n | None \<Rightarrow> 1)"

definition sleep :: "jsval \<Rightarrow> world \<Rightarrow> world" where
  "sleep ms w = w\<lparr>now := now w + timeout_ms (runtime w) ms\<rparr>"

text \<open>\<^verbatim>\<open>new Date().toISOString()\<close>\<close>

definition timestamp :: "world \<Rightarrow> jsval" where
  "timestamp w = JTime (now w)"

text \<open>\<^verbatim>\<open>Math.random()\<close>\<close>

definition Math_random :: "world \<Rightarrow> real \<times> world" where
  "Math_random w = (random w (draws w), w\<lparr>draws := Suc (draws w)\<rparr>)"

section \<open>Slack service\<close>

definition isConfigured :: "world \<Rightarrow> bool" where
  "isConfigured w = (slack_client w \<noteq> None \<and> slack_settings w \<noteq> None)"

text \<open>
  \<open>sendMessage\<close> catches whatever the client throws and reports it in its result; the
  result type keeps the rejection a promise could carry, which no branch produces.
\<close>

definition sendMessage :: "slack_message \<Rightarrow> world \<Rightarrow> exn + jsval" where
  "sendMessage message w =
     (case (slack_client w, slack_settings w) of
        (Some client, Some cfg) \<Rightarrow>
          (case client (message\<lparr>channel := js_or (channel message) (JStr (defaultChannel cfg))\<rparr>) of
             Responds ok ts err \<Rightarrow>
               if ok then Inr (JObj [(''success'', JBool True), (''ts'', ts)])
               else Inr (JObj [(''success'', JBool False),
                               (''error'', js_or err (JStr ''Unknown error''))])
           | Rejects e \<Rightarrow>
               Inr (JObj [(''success'', JBool False), (''error'', JStr (message_of e))]))
      | _ \<Rightarrow> Inr (JObj [(''success'', JBool False), (''error'', JStr ''Slack not configured'')]))"

section \<open>Node handlers\<close>

definition executeAction :: "node \<Rightarrow> jsval \<Rightarrow> world \<Rightarrow> jsval \<times> world" where
  "executeAction node context w =
     (let w1 = sleep (JNum 1000) w
      in (JObj [(''action'', JStr (title node)), (''executed'', JBool True),
                (''timestamp'', timestamp w1)], w1))"

definition executeCondition :: "node \<Rightarrow> jsval \<Rightarrow> world \<Rightarrow> jsval \<times> world" where
  "executeCondition node context w =
     (let w1 = sleep (JNum 500) w;
          (r, w2) = Math_random w1
      in (JObj [(''condition'', JStr (title node)), (''result'', JBool (r > 1 / 2)),
                (''timestamp'', timestamp w2)], w2))"

definition executeDelay :: "node \<Rightarrow> jsval \<Rightarrow> world \<Rightarrow> jsval \<times> world" where
  "executeDelay node context w =
     (let delayMs = js_or (js_get (config node) ''delayMs'') (JNum 2000);
          w1 = sleep delayMs w
      in (JObj [(''delay'', JStr (title node)), (''delayed'', JBool True),
                (''duration'', delayMs), (''timestamp'', timestamp w1)], w1))"

definition executeEmail :: "node \<Rightarrow> jsval \<Rightarrow> world \<Rightarrow> jsval \<times> world" where
  "executeEmail node context w =
     (let w1 = sleep (JNum 1500) w
      in (JObj [(''email'', JStr (title node)), (''sent'', JBool True),
                (''to'', js_or (js_get (config node) ''to'') (JStr ''unknown@example.com'')),
                (''timestamp'', timestamp w1)], w1))"

definition executeDatabase :: "node \<Rightarrow> jsval \<Rightarrow> world \<Rightarrow> jsval \<times> world" where
  "executeDatabase node context w =
     (let w1 = sleep (JNum 800) w;
          (r, w2) = Math_random w1
      in (JObj [(''database'', JStr (title node)), (''operation'', JStr ''SELECT''),
                (''records'', JNum \<lfloor>r * 100\<rfloor>), (''timestamp'', timestamp w2)], w2))"

definition executeSlack :: "node \<Rightarrow> jsval \<Rightarrow> world \<Rightarrow> jsval \<times> world" where
  "executeSlack node context w =
     (let w1 = sleep (JNum 1500) w;
          channel = js_or (js_get (config node) ''channel'') (JStr ''#general'');
          message = js_or (js_get (config node) ''message'')
                      (JStr (''Workflow executed: '' @ title node))
      in if isConfigured w1 then
           (case sendMessage \<lparr>channel = channel, msg_text = message,
                              blocks = js_get (config node) ''blocks''\<rparr> w1 of
              Inr result \<Rightarrow>
                (JObj [(''slack'', JStr (title node)), (''sent'', JBool True),
                       (''channel'', channel), (''message'', message),
                       (''realMessage'', js_get result ''success''),
                       (''timestamp'', js_or (js_get result ''ts'') (timestamp w1))], w1)
            | Inl e \<Rightarrow>
                (JObj [(''slack'', JStr (title node)), (''sent'', JBool False),
                       (''channel'', channel), (''message'', message),
                       (''error'', JStr (message_of e)),
                       (''timestamp'', timestamp w1)], w1))
         else
           (JObj [(''slack'', JStr (title node)), (''sent'', JBool True),
                  (''channel'', channel), (''message'', message),
                  (''simulated'', JBool True), (''timestamp'', timestamp w1)], w1))"

definition executeWebhook :: "node \<Rightarrow> jsval \<Rightarrow> world \<Rightarrow> jsval \<times> world" where
  "executeWebhook node context w =
     (let w1 = sleep (JNum 1200) w
      in (JObj [(''webhook'', JStr (title node)),
                (''url'', js_or (js_get (config node) ''url'') (JStr ''https://example.com/webhook'')),
                (''status'', JNum 200), (''timestamp'', timestamp w1)], w1))"

section \<open>Node executor and traversal\<close>

text \<open>
  The \<^verbatim>\<open>switch (node.type)\<close> of the run-now route's \<^verbatim>\<open>executeNode\<close>, and the one of the
  scheduler's \<^verbatim>\<open>executeNode\<close>, which has no \<^verbatim>\<open>slack\<close> case.
\<close>

definition dispatch :: "node \<Rightarrow> jsval \<Rightarrow> world \<Rightarrow> jsval \<times> world" where
  "dispatch node context w =
     (if type node = ''trigger'' then
        (JObj [(''triggered'', JBool True), (''timestamp'', timestamp w)], w)
      else if type node = ''action'' then executeAction node context w
      else if type node = ''condition'' then executeCondition node context w
      else if type node = ''delay'' then executeDelay node context w
      else if type node = ''email'' then executeEmail node context w
      else if type node = ''database'' then executeDatabase node context w
      else if type node = ''slack'' then executeSlack node context w
      else if type node = ''webhook'' then executeWebhook node context w
      else (JObj [(''executed'', JBool True), (''type'', JStr (type node))], w))"

definition scheduler_dispatch :: "node \<Rightarrow> jsval \<Rightarrow> world \<Rightarrow> jsval \<times> world" where
  "scheduler_dispatch node context w =
     (if type node = ''trigger'' then
        (JObj [(''triggered'', JBool True), (''timestamp'', timestamp w)], w)
      else if type node = ''action'' then executeAction node context w
      else if type node = ''condition'' then executeCondition node context w
      else if type node = ''delay'' then executeDelay node context w
      else if type node = ''email'' then executeEmail node context w
      else if type node = ''database'' then executeDatabase node context w
      else if type node = ''webhook'' then executeWebhook node context w
      else (JObj [(''executed'', JBool True), (''type'', JStr (type node))], w))"

definition getNodeById :: "string \<Rightarrow> node list \<Rightarrow> node option" where
  "getNodeById nid ns = find (\<lambda>node. nodeId node = nid) ns"

text \<open>
  \<^verbatim>\<open>const childNodes = graph[node.nodeId] || []\<close> as the \<^verbatim>\<open>for ... of\<close> loop takes it:
  the identifiers it iterates over, or the \<^verbatim>\<open>TypeError\<close> for a truthy value that is not
  iterable. A non-empty string is iterated by its characters.
\<close>

definition iterable_error :: exn where
  "iterable_error = TypeError ''childNodes is not iterable''"

definition childNodes_of :: "runtime \<Rightarrow> graph \<Rightarrow> string \<Rightarrow> exn + string list" where
  "childNodes_of rt g k =
     (case graph_get rt g k of
        Undefined \<Rightarrow> Inr []
      | OwnArray targets \<Rightarrow> Inr targets
      | ProtoArray a \<Rightarrow> Inr a
      | ObjectPrototype \<Rightarrow> Inl iterable_error
      | Function \<Rightarrow> Inl iterable_error
      | Element s \<Rightarrow> Inr (map (\<lambda>c. [c]) s)
      | Length n \<Rightarrow> if n = 0 then Inr [] else Inl iterable_error)"

text \<open>
  \<^verbatim>\<open>executeNode\<close>, whose text after the switch is the same in both files; the switch is
  the parameter \<open>run\<close>. \<open>executeChildren\<close> is the \<^verbatim>\<open>for (const childNodeId of childNodes)\<close>
  loop with \<open>childResults\<close> as its accumulator. The node list handed to \<open>getNodeById\<close>
  is the source's \<^verbatim>\<open>Object.values(graph).length > 0 ? [] : []\<close>, the values being those of
  the own properties.
\<close>

function
  executeNodeWith ::
    "(node \<Rightarrow> jsval \<Rightarrow> world \<Rightarrow> jsval \<times> world) \<Rightarrow> node \<Rightarrow> graph \<Rightarrow> jsval \<Rightarrow> world
       \<Rightarrow> (exn + jsval) \<times> world"
and
  executeChildren ::
    "(node \<Rightarrow> jsval \<Rightarrow> world \<Rightarrow> jsval \<times> world) \<Rightarrow> string list \<Rightarrow> graph \<Rightarrow> jsval
       \<Rightarrow> jsval list \<Rightarrow> world \<Rightarrow> (exn + jsval list) \<times> world"
where
  "executeNodeWith run node graph context w =
     (let w0 = w\<lparr>console := console w @
                  [''Executing node: '' @ title node @ '' ('' @ type node @ '')'']\<rparr>;
          (result, w1) = run node context w0
      in case childNodes_of (runtime w1) graph (nodeId node) of
           Inl e \<Rightarrow> (Inl e, w1)
         | Inr childNodes \<Rightarrow>
             (case executeChildren run childNodes graph (spread context result) [] w1 of
                (Inl e, w2) \<Rightarrow> (Inl e, w2)
              | (Inr childResults, w2) \<Rightarrow>
                  (Inr (spread result (JObj [(''children'', JArr childResults)])), w2)))"
| "executeChildren run [] graph context childResults w = (Inr childResults, w)"
| "executeChildren run (childNodeId # rest) graph context childResults w =
     (case getNodeById childNodeId (if length (map snd (own graph)) > 0 then [] else []) of
        None \<Rightarrow> executeChildren run rest graph context childResults w
      | Some childNode \<Rightarrow>
          (case executeNodeWith run childNode graph context w of
             (Inl e, w') \<Rightarrow> (Inl e, w')
           | (Inr childResult, w') \<Rightarrow>
               executeChildren run rest graph context (childResults @ [childResult]) w'))"
  by pat_completeness auto
termination
  by (relation "measure (\<lambda>x. case x of
          Inl (run, node, graph, context, w) \<Rightarrow>
            Suc (length (case childNodes_of
                   (runtime (snd (run node context
                      (w\<lparr>console := console w @
                           [''Executing node: '' @ title node @ '' ('' @ type node @ '')'']\<rparr>))))
                   graph (nodeId node) of Inr cs \<Rightarrow> cs | Inl e \<Rightarrow> []))
        | Inr (run, cs, graph, context, acc, w) \<Rightarrow> length cs)")
     (auto simp: getNodeById_def dest!: arg_cong [where f = snd])

definition executeNode :: "node \<Rightarrow> graph \<Rightarrow> jsval \<Rightarrow> world \<Rightarrow> (exn + jsval) \<times> world" where
  "executeNode = executeNodeWith dispatch"

definition scheduler_executeNode ::
    "node \<Rightarrow> graph \<Rightarrow> jsval \<Rightarrow> world \<Rightarrow> (exn + jsval) \<times> world" where
  "scheduler_executeNode = executeNodeWith scheduler_dispatch"

section \<open>Execution store\<close>

text \<open>
  A column in the \<^verbatim>\<open>data\<close> of an update: \<^verbatim>\<open>undefined\<close> leaves it as it is, \<^verbatim>\<open>null\<close>
  clears it, a value sets it.
\<close>

datatype 'a upd = Keep | Clear | SetTo 'a

fun apply_upd :: "'a upd \<Rightarrow> 'a option \<Rightarrow> 'a option" where
  "apply_upd Keep old = old"
| "apply_upd Clear old = None"
| "apply_upd (SetTo v) old = Some v"

fun upd_of :: "jsval \<Rightarrow> jsval upd" where
  "upd_of JUndefined = Keep"
| "upd_of JNull = Clear"
| "upd_of v = SetTo v"

text \<open>
  Modelled from the spec: the store collaborator (the \<^verbatim>\<open>db\<close> module and its schema) is
  not among the sources. The spec gives it \<^verbatim>\<open>createExecution(workflowId, input) -> executionId\<close>
  and \<^verbatim>\<open>updateExecution(id, status, output?, error?)\<close>, and an execution the attributes
  \<open>id, workflowId, status, input, output, error, startedAt, completedAt\<close>, the output
  and the error absent until set. A new record gets the next identifier and the current
  time as \<open>startedAt\<close>; an update of an identifier that has no record is rejected and
  writes nothing.
\<close>

definition db_execution_create :: "string \<Rightarrow> string \<Rightarrow> jsval \<Rightarrow> world \<Rightarrow> nat \<times> world" where
  "db_execution_create wfId st inp w =
     (length (executions w),
      w\<lparr>executions := executions w @
           [\<lparr>workflowId = wfId, status = st, input = inp, exec_output = None,
             error = None, startedAt = now w, completedAt = None\<rparr>],
        db_trace := db_trace w @ [Created (length (executions w)) st]\<rparr>)"

definition db_execution_update ::
    "nat \<Rightarrow> string \<Rightarrow> string upd \<Rightarrow> jsval upd \<Rightarrow> nat upd \<Rightarrow> world \<Rightarrow> (exn + unit) \<times> world" where
  "db_execution_update eid st err out fin w =
     (if eid < length (executions w) then
        (Inr (),
         w\<lparr>executions := (executions w)
              [eid := (executions w ! eid)
                 \<lparr>status := st,
                  exec_output := apply_upd out (exec_output (executions w ! eid)),
                  error := apply_upd err (error (executions w ! eid)),
                  completedAt := apply_upd fin (completedAt (executions w ! eid))\<rparr>],
           db_trace := db_trace w @ [Updated eid st]\<rparr>)
      else (Inl (Error ''Record to update not found''), w))"

text \<open>Modelled from the spec: \<^verbatim>\<open>getWorkflow(id)\<close> of the same collaborator.\<close>

definition db_workflow_findUnique :: "string \<Rightarrow> world \<Rightarrow> workflow option" where
  "db_workflow_findUnique i w = find (\<lambda>row. wid row = i) (workflows w)"

section \<open>Execution engine of the run-now route\<close>

definition updateExecutionStatus ::
    "nat \<Rightarrow> string \<Rightarrow> string upd \<Rightarrow> jsval \<Rightarrow> world \<Rightarrow> (exn + unit) \<times> world" where
  "updateExecutionStatus executionId st err out w =
     db_execution_update executionId st err (upd_of out)
       (if st \<noteq> ''running'' then SetTo (now w) else Keep) w"

text \<open>
  The \<^verbatim>\<open>try\<close> block of \<open>executeWorkflow\<close>, its \<^verbatim>\<open>catch\<close> block, and the function.
\<close>

definition executeWorkflow_try :: "workflow \<Rightarrow> nat \<Rightarrow> world \<Rightarrow> (exn + unit) \<times> world" where
  "executeWorkflow_try workflow executionId w =
     (case find (\<lambda>node. type node = ''trigger'') (nodes workflow) of
        None \<Rightarrow> (Inl (Error ''No trigger node found in workflow''), w)
      | Some triggerNode \<Rightarrow>
          (case buildExecutionGraph (runtime w) (nodes workflow) (edges workflow) of
             Inl e \<Rightarrow> (Inl e, w)
           | Inr executionGraph \<Rightarrow>
               (case executeNode triggerNode executionGraph (JObj []) w of
                  (Inl e, w1) \<Rightarrow> (Inl e, w1)
                | (Inr result, w1) \<Rightarrow>
                    updateExecutionStatus executionId ''completed'' Clear result w1)))"

definition executeWorkflow_catch :: "exn \<Rightarrow> nat \<Rightarrow> world \<Rightarrow> (exn + unit) \<times> world" where
  "executeWorkflow_catch e executionId w =
     updateExecutionStatus executionId ''failed'' (SetTo (message_of e)) JUndefined w"

definition executeWorkflow :: "workflow \<Rightarrow> nat \<Rightarrow> world \<Rightarrow> (exn + unit) \<times> world" where
  "executeWorkflow workflow executionId w =
     (case executeWorkflow_try workflow executionId w of
        (Inr u, w1) \<Rightarrow> (Inr u, w1)
      | (Inl e, w1) \<Rightarrow> executeWorkflow_catch e executionId w1)"


text \<open>
  The route handler. The source starts \<open>executeWorkflow\<close> in the background and answers at
  once; the model runs it to its end before it returns, so the world returned is the one
  the background run leaves. \<^verbatim>\<open>error.message\<close> in the handler of a rejected run is the
  message of the \<^verbatim>\<open>Error\<close> the store raised (nothing else reaches that handler). The
  outer \<^verbatim>\<open>catch\<close> (status 500) answers a store that cannot be reached, which the model
  does not have.
\<close>

record response =
  code :: nat
  body :: jsval

definition error_message :: "exn \<Rightarrow> string upd" where
  "error_message e =
     (case e of
        Error m \<Rightarrow> SetTo m
      | TypeError m \<Rightarrow> SetTo m
      | Thrown v \<Rightarrow> (case js_get v ''message'' of JStr m \<Rightarrow> SetTo m | JNull \<Rightarrow> Clear | _ \<Rightarrow> Keep))"

definition POST :: "string \<Rightarrow> world \<Rightarrow> response \<times> world" where
  "POST i w =
     (case db_workflow_findUnique i w of
        None \<Rightarrow> (\<lparr>code = 404, body = JObj [(''error'', JStr ''Workflow not found'')]\<rparr>, w)
      | Some workflow \<Rightarrow>
          if \<not> isActive workflow then
            (\<lparr>code = 400, body = JObj [(''error'', JStr ''Workflow is not active'')]\<rparr>, w)
          else
            (let (executionId, w1) = db_execution_create i ''running'' (JObj []) w;
                 w2 = (case executeWorkflow workflow executionId w1 of
                         (Inr u, w') \<Rightarrow> w'
                       | (Inl e, w') \<Rightarrow>
                           snd (updateExecutionStatus executionId ''failed''
                                  (error_message e) JUndefined w'))
             in (\<lparr>code = 200,
                  body = JObj [(''executionId'', JNum (int executionId)),
                               (''status'', JStr ''running''),
                               (''message'', JStr ''Workflow execution started'')]\<rparr>, w2)))"

section \<open>Scheduler\<close>

text \<open>
  \<open>runWorkflow\<close> writes to the store directly: on success status, output and completion
  time, on failure status, error and completion time.
\<close>

definition runWorkflow_try :: "workflow \<Rightarrow> nat \<Rightarrow> world \<Rightarrow> (exn + unit) \<times> world" where
  "runWorkflow_try workflow executionId w =
     (case find (\<lambda>node. type node = ''trigger'') (nodes workflow) of
        None \<Rightarrow> (Inl (Error ''No trigger node found in workflow''), w)
      | Some triggerNode \<Rightarrow>
          (case buildExecutionGraph (runtime w) (nodes workflow) (edges workflow) of
             Inl e \<Rightarrow> (Inl e, w)
           | Inr executionGraph \<Rightarrow>
               (case scheduler_executeNode triggerNode executionGraph (JObj []) w of
                  (Inl e, w1) \<Rightarrow> (Inl e, w1)
                | (Inr result, w1) \<Rightarrow>
                    db_execution_update executionId ''completed'' Keep (upd_of result)
                      (SetTo (now w1)) w1)))"

definition runWorkflow :: "workflow \<Rightarrow> nat \<Rightarrow> world \<Rightarrow> (exn + unit) \<times> world" where
  "runWorkflow workflow executionId w =
     (case runWorkflow_try workflow executionId w of
        (Inr u, w1) \<Rightarrow> (Inr u, w1)
      | (Inl e, w1) \<Rightarrow>
          db_execution_update executionId ''failed'' (SetTo (message_of e)) Keep
            (SetTo (now w1)) w1)"

text \<open>What a timer does when it fires; an exception of the run is logged and dropped.\<close>

definition executeScheduledWorkflow :: "string \<Rightarrow> world \<Rightarrow> world" where
  "executeScheduledWorkflow i w =
     (case db_workflow_findUnique i w of
        None \<Rightarrow> w
      | Some workflow \<Rightarrow>
          if \<not> isActive workflow then w
          else
            (let (executionId, w1) =
                   db_execution_create i ''running''
                     (JObj [(''triggeredBy'', JStr ''scheduler'')]) w
             in snd (runWorkflow workflow executionId w1)))"

text \<open>
  The scheduler's own state: the \<^verbatim>\<open>Map\<close> from workflow identifier to binding, in
  insertion order, and the tasks the cron library has created, a task's handle being its
  position. A task holds its expression, the workflow its callback runs, and whether it
  is started.
\<close>

record cron_task =
  expression :: string
  job :: string
  started :: bool

record scheduled_workflow =
  sw_id :: string
  sw_workflowId :: string
  sw_schedule :: string
  task :: nat

record scheduler =
  scheduledWorkflows :: "(string \<times> scheduled_workflow) list"
  tasks :: "cron_task list"

definition task_stop :: "nat \<Rightarrow> cron_task list \<Rightarrow> cron_task list" where
  "task_stop t ts = (if t < length ts then ts[t := (ts ! t)\<lparr>started := False\<rparr>] else ts)"

definition task_start :: "nat \<Rightarrow> cron_task list \<Rightarrow> cron_task list" where
  "task_start t ts = (if t < length ts then ts[t := (ts ! t)\<lparr>started := True\<rparr>] else ts)"

definition unscheduleWorkflow :: "string \<Rightarrow> scheduler \<Rightarrow> scheduler" where
  "unscheduleWorkflow wfId s =
     (case map_of (scheduledWorkflows s) wfId of
        None \<Rightarrow> s
      | Some scheduled \<Rightarrow>
          s\<lparr>tasks := task_stop (task scheduled) (tasks s),
            scheduledWorkflows := AList.delete wfId (scheduledWorkflows s)\<rparr>)"

text \<open>
  \<open>validate\<close> is \<^verbatim>\<open>cron.validate\<close> of the cron library, a parameter of the model. The state
  is returned also when the call throws, as the caller finds it.
\<close>

definition scheduleWorkflow ::
    "(string \<Rightarrow> bool) \<Rightarrow> string \<Rightarrow> string \<Rightarrow> scheduler \<Rightarrow> (exn + unit) \<times> scheduler" where
  "scheduleWorkflow validate wfId sched s =
     (if \<not> validate sched then (Inl (Error (''Invalid cron expression: '' @ sched)), s)
      else
        (let s1 = unscheduleWorkflow wfId s;
             t = length (tasks s1);
             s2 = s1\<lparr>tasks := tasks s1 @
                        [\<lparr>expression = sched, job = wfId, started = False\<rparr>]\<rparr>;
             s3 = s2\<lparr>scheduledWorkflows :=
                        AList.update wfId
                          \<lparr>sw_id = wfId, sw_workflowId = wfId,
                           sw_schedule = sched, task = t\<rparr>
                          (scheduledWorkflows s2)\<rparr>;
             s4 = s3\<lparr>tasks := task_start t (tasks s3)\<rparr>
         in (Inr (), s4)))"

definition updateWorkflowSchedule ::
    "(string \<Rightarrow> bool) \<Rightarrow> string \<Rightarrow> string option \<Rightarrow> scheduler \<Rightarrow> (exn + unit) \<times> scheduler" where
  "updateWorkflowSchedule validate wfId sched s =
     (case sched of
        Some e \<Rightarrow> if e \<noteq> [] then scheduleWorkflow validate wfId e s
                  else (Inr (), unscheduleWorkflow wfId s)
      | None \<Rightarrow> (Inr (), unscheduleWorkflow wfId s))"

definition shutdown :: "scheduler \<Rightarrow> scheduler" where
  "shutdown s =
     s\<lparr>tasks := foldl (\<lambda>ts (k, b). task_stop (task b) ts) (tasks s) (scheduledWorkflows s),
       scheduledWorkflows := []\<rparr>"

section \<open>Cron expressions\<close>

text \<open>
  The fields of an expression: its pieces between spaces. A field is a list of items
  separated by commas; an item is \<^verbatim>\<open>*\<close>, a value or a range of two values, and
  \<^verbatim>\<open>*\<close> or a range may carry a step; a value is a number in the range of its field
  or, for months and weekdays, a name.
\<close>

fun split_on :: "char \<Rightarrow> string \<Rightarrow> string list" where
  "split_on c [] = [[]]"
| "split_on c (x # xs) =
     (if x = c then [] # split_on c xs
      else (case split_on c xs of [] \<Rightarrow> [[x]] | p # ps \<Rightarrow> (x # p) # ps))"

definition cron_fields :: "string \<Rightarrow> string list" where
  "cron_fields e = filter (\<lambda>f. f \<noteq> []) (split_on CHR '' '' e)"

definition lower :: "char \<Rightarrow> char" where
  "lower c = (if 65 \<le> (of_char c :: nat) \<and> (of_char c :: nat) \<le> 90
              then char_of ((of_char c :: nat) + 32) else c)"

definition month_names :: "string list" where
  "month_names =
     [''january'', ''february'', ''march'', ''april'', ''may'', ''june'', ''july'', ''august'',
      ''september'', ''october'', ''november'', ''december'',
      ''jan'', ''feb'', ''mar'', ''apr'', ''jun'', ''jul'', ''aug'', ''sep'', ''oct'', ''nov'',
      ''dec'']"

definition weekday_names :: "string list" where
  "weekday_names =
     [''sunday'', ''monday'', ''tuesday'', ''wednesday'', ''thursday'', ''friday'', ''saturday'',
      ''sun'', ''mon'', ''tue'', ''wed'', ''thu'', ''fri'', ''sat'']"

definition number_ok :: "string \<Rightarrow> bool" where
  "number_ok s = (s \<noteq> [] \<and> list_all is_digit s)"

definition value_ok :: "nat \<Rightarrow> nat \<Rightarrow> string list \<Rightarrow> string \<Rightarrow> bool" where
  "value_ok lo hi names v =
     ((number_ok v \<and> lo \<le> decimal v \<and> decimal v \<le> hi) \<or> map lower v \<in> set names)"

definition range_ok :: "nat \<Rightarrow> nat \<Rightarrow> string list \<Rightarrow> string \<Rightarrow> bool" where
  "range_ok lo hi names r =
     (case split_on CHR ''-'' r of
        [a, b] \<Rightarrow> value_ok lo hi names a \<and> value_ok lo hi names b
      | _ \<Rightarrow> False)"

definition item_ok :: "nat \<Rightarrow> nat \<Rightarrow> string list \<Rightarrow> string \<Rightarrow> bool" where
  "item_ok lo hi names s =
     (case split_on CHR ''/'' s of
        [b] \<Rightarrow> b = ''*'' \<or> value_ok lo hi names b \<or> range_ok lo hi names b
      | [b, step] \<Rightarrow>
          (b = ''*'' \<or> range_ok lo hi names b) \<and> number_ok step \<and> 0 < decimal step
      | _ \<Rightarrow> False)"

definition field_ok :: "nat \<Rightarrow> nat \<Rightarrow> string list \<Rightarrow> string \<Rightarrow> bool" where
  "field_ok lo hi names f = list_all (item_ok lo hi names) (split_on CHR '','' f)"

text \<open>
  Follows the spec's words: the standard cron grammar, 5-field, \<open>minute hour day month
  weekday\<close>.
\<close>

definition five_fields_ok :: "string list \<Rightarrow> bool" where
  "five_fields_ok fs =
     (case fs of
        [mi, h, d, mo, wd] \<Rightarrow>
          field_ok 0 59 [] mi \<and> field_ok 0 23 [] h \<and> field_ok 1 31 [] d \<and>
          field_ok 1 12 month_names mo \<and> field_ok 0 7 weekday_names wd
      | _ \<Rightarrow> False)"

definition valid_five_field :: "string \<Rightarrow> bool" where
  "valid_five_field e = five_fields_ok (cron_fields e)"

text \<open>
  Modelled from the documentation of the cron library, which is not among the sources:
  \<^verbatim>\<open>cron.validate\<close> accepts the five fields and, before them, an optional field for
  the seconds, from 0 to 59.
\<close>

definition valid_six_field :: "string \<Rightarrow> bool" where
  "valid_six_field e =
     (case cron_fields e of
        [s, mi, h, d, mo, wd] \<Rightarrow> field_ok 0 59 [] s \<and> five_fields_ok [mi, h, d, mo, wd]
      | _ \<Rightarrow> False)"

definition node_cron_validate :: "string \<Rightarrow> bool" where
  "node_cron_validate e = (valid_five_field e \<or> valid_six_field e)"

section \<open>Example inputs\<close>

text \<open>\<^verbatim>\<open>String.prototype.includes\<close>, to state what a message contains.\<close>

fun startsWith :: "string \<Rightarrow> string \<Rightarrow> bool" where
  "startsWith s [] = True"
| "startsWith [] (c # p) = False"
| "startsWith (x # s) (c # p) = (x = c \<and> startsWith s p)"

fun js_includes :: "string \<Rightarrow> string \<Rightarrow> bool" where
  "js_includes [] sub = (sub = [])"
| "js_includes (x # s) sub = (startsWith (x # s) sub \<or> js_includes s sub)"

text \<open>
  The prototype properties of the standard library, and a coercion that reads a string
  of decimal digits as its number and anything else as not a number.
\<close>

definition demo_runtime :: runtime where
  "demo_runtime =
     \<lparr>object_names =
        [''constructor'', ''__defineGetter__'', ''__defineSetter__'', ''hasOwnProperty'',
         ''__lookupGetter__'', ''__lookupSetter__'', ''isPrototypeOf'',
         ''propertyIsEnumerable'', ''toString'', ''valueOf'', ''toLocaleString''],
      array_names =
        [''at'', ''concat'', ''copyWithin'', ''fill'', ''find'', ''findIndex'', ''findLast'',
         ''findLastIndex'', ''lastIndexOf'', ''pop'', ''push'', ''reverse'', ''shift'',
         ''unshift'', ''slice'', ''sort'', ''splice'', ''includes'', ''indexOf'', ''join'',
         ''keys'', ''entries'', ''values'', ''forEach'', ''filter'', ''flat'', ''flatMap'',
         ''map'', ''every'', ''some'', ''reduce'', ''reduceRight'', ''toReversed'',
         ''toSorted'', ''toSpliced'', ''with'', ''toLocaleString'', ''toString'',
         ''constructor''],
      to_number =
        (\<lambda>v. case v of
               JStr s \<Rightarrow> if s \<noteq> [] \<and> list_all is_digit s then Some (int (decimal s)) else None
             | _ \<Rightarrow> None)\<rparr>"

text \<open>
  A world with an empty store and no Slack configuration, a trigger node \<open>T\<close>, an action
  node \<open>A\<close>, the edge from \<open>T\<close> to \<open>A\<close>, an edge to \<open>T\<close> from \<open>constructor\<close>, which no
  node declares, and an execution record as the route creates it.
\<close>

definition demo_world :: world where
  "demo_world = \<lparr>now = 0, random = (\<lambda>i. 0), draws = 0, console = [], slack_client = None,
     slack_settings = None, workflows = [], executions = [], db_trace = [],
     runtime = demo_runtime\<rparr>"

definition node_T :: node where
  "node_T = \<lparr>nodeId = ''T'', type = ''trigger'', title = ''Start'', config = JObj []\<rparr>"

definition node_A :: node where
  "node_A = \<lparr>nodeId = ''A'', type = ''action'', title = ''Act'', config = JObj []\<rparr>"

definition edge_TA :: edge where
  "edge_TA = \<lparr>sourceId = ''T'', targetId = ''A''\<rparr>"
definition edge_constructor_T :: edge where
  "edge_constructor_T = \<lparr>sourceId = ''constructor'', targetId = ''T''\<rparr>"

definition running_execution :: execution where
  "running_execution = \<lparr>workflowId = ''wf1'', status = ''running'', input = JObj [],
     exec_output = None, error = None, startedAt = 0, completedAt = None\<rparr>"

definition workflow_no_trigger :: workflow where
  "workflow_no_trigger = \<lparr>wid = ''wf1'', isActive = True, schedule = None,
     nodes = [node_A], edges = []\<rparr>"

definition workflow_TA :: workflow where
  "workflow_TA = \<lparr>wid = ''wf2'', isActive = True, schedule = None,
     nodes = [node_A, node_T], edges = [edge_TA]\<rparr>"

definition world_one_running :: world where
  "world_one_running = demo_world\<lparr>executions := [running_execution]\<rparr>"

definition workflow_inactive :: workflow where
  "workflow_inactive = \<lparr>wid = ''wf3'', isActive = False, schedule = None,
     nodes = [node_T, node_A], edges = [edge_TA]\<rparr>"

definition world_inactive :: world where
  "world_inactive = demo_world\<lparr>workflows := [workflow_inactive]\<rparr>"

text \<open>A Slack service that is configured and whose API answers \<^verbatim>\<open>ok: false\<close>.\<close>

definition slack_failing :: world where
  "slack_failing = demo_world
     \<lparr>slack_client := Some (\<lambda>m. Responds False JUndefined (JStr ''channel_not_found'')),
      slack_settings := Some \<lparr>botToken = ''xoxb-1'', defaultChannel = ''#ops''\<rparr>\<rparr>"

definition node_S :: node where
  "node_S = \<lparr>nodeId = ''S'', type = ''slack'', title = ''Notify'', config = JObj []\<rparr>"

definition node_D0 :: node where
  "node_D0 = \<lparr>nodeId = ''D'', type = ''delay'', title = ''Wait'',
     config = JObj [(''delayMs'', JNum 0)]\<rparr>"

definition node_D100 :: node where
  "node_D100 = \<lparr>nodeId = ''D'', type = ''delay'', title = ''Wait'',
     config = JObj [(''delayMs'', JNum 100)]\<rparr>"

text \<open>A validator that accepts two cron expressions, and a scheduler with no binding.\<close>

definition demo_validate :: "string \<Rightarrow> bool" where
  "demo_validate e = (e = ''0 9 * * *'' \<or> e = ''*/5 * * * *'')"

definition empty_scheduler :: scheduler where
  "empty_scheduler = \<lparr>scheduledWorkflows = [], tasks = []\<rparr>"

definition workflow_bad_edge :: workflow where
  "workflow_bad_edge = \<lparr>wid = ''wf4'', isActive = True, schedule = None,
     nodes = [node_T], edges = [edge_constructor_T]\<rparr>"

definition world_active :: world where
  "world_active = demo_world\<lparr>workflows := [workflow_TA]\<rparr>"

section \<open>Lifecycle of an execution\<close>

text \<open>
  What one operation on workflow \<open>i\<close> does to the execution table, from the world \<open>w\<close>
  before it to the world \<open>w'\<close> after it. Either it records a run: the records that
  existed are as they were, and exactly one record is added, for workflow \<open>i\<close>, created
  with status \<open>running\<close> and then updated once, to \<open>completed\<close> or \<open>failed\<close>, with its
  completion time set. Or it writes nothing.
\<close>

definition run_recorded :: "string \<Rightarrow> world \<Rightarrow> world \<Rightarrow> bool" where
  "run_recorded i w w' =
     (let n = length (executions w) in
      take n (executions w') = executions w \<and>
      length (executions w') = Suc n \<and>
      workflowId (executions w' ! n) = i \<and>
      status (executions w' ! n) \<in> {''completed'', ''failed''} \<and>
      completedAt (executions w' ! n) \<noteq> None \<and>
      db_trace w' =
        db_trace w @ [Created n ''running'', Updated n (status (executions w' ! n))])"

definition nothing_written :: "world \<Rightarrow> world \<Rightarrow> bool" where
  "nothing_written w w' = (executions w' = executions w \<and> db_trace w' = db_trace w)"


section \<open>Properties of the graph model\<close>

text \<open>
  When no node is named \<^verbatim>\<open>__proto__\<close> and every edge leaves a declared node or a name
  that the object does not inherit, the graph is built, its prototype is untouched, and
  every declared identifier is mapped to the targets of the edges that leave it, in
  edge declaration order, an edge that occurs twice contributing its target twice.
\<close>

lemma init_nodes_clean:
  assumes "\<forall>n\<in>set ns. nodeId n \<noteq> ''__proto__''"
  shows "proto (foldl init_node g ns) = proto g \<and>
         map_of (own (foldl init_node g ns)) k =
           (if k \<in> nodeId ` set ns then Some [] else map_of (own g) k)"
  using assms
  by (induction ns arbitrary: g) (auto simp: init_node_def update_conv')

lemma add_edges_clean:
  assumes "proto g = None"
    and "\<forall>e\<in>set es. map_of (own g) (sourceId e) \<noteq> None \<or>
           (sourceId e \<noteq> ''__proto__'' \<and> sourceId e \<notin> set (object_names rt))"
  shows "\<exists>g'. add_edges rt g es = Inr g' \<and> proto g' = None \<and>
           map_of (own g') k =
             (case map_of (own g) k of
                None \<Rightarrow> None
              | Some ts \<Rightarrow> Some (ts @ map targetId (filter (\<lambda>e. sourceId e = k) es)))"
  using assms
proof (induction es arbitrary: g)
  case Nil
  then show ?case by (simp split: option.splits)
next
  case (Cons e es)
  show ?case
  proof (cases "map_of (own g) (sourceId e)")
    case None
    with Cons.prems have a: "add_edge rt g e = Inr g"
      by (simp add: add_edge_def graph_get_def)
    from Cons.IH [of g] Cons.prems obtain g' where
      "add_edges rt g es = Inr g'" "proto g' = None"
      "map_of (own g') k =
         (case map_of (own g) k of
            None \<Rightarrow> None
          | Some ts \<Rightarrow> Some (ts @ map targetId (filter (\<lambda>e. sourceId e = k) es)))"
      by auto
    with a None show ?thesis
      by (auto split: option.splits)
  next
    case (Some ts)
    define g1 where
      "g1 = g\<lparr>own := AList.update (sourceId e) (ts @ [targetId e]) (own g)\<rparr>"
    from Some have a: "add_edge rt g e = Inr g1"
      by (simp add: add_edge_def graph_get_def g1_def)
    have p: "proto g1 = None" using Cons.prems by (simp add: g1_def)
    have d: "\<forall>e\<in>set es. map_of (own g1) (sourceId e) \<noteq> None \<or>
           (sourceId e \<noteq> ''__proto__'' \<and> sourceId e \<notin> set (object_names rt))"
      using Cons.prems by (auto simp: g1_def update_conv')
    from Cons.IH [OF p d] obtain g' where
      "add_edges rt g1 es = Inr g'" "proto g' = None"
      "map_of (own g') k =
         (case map_of (own g1) k of
            None \<Rightarrow> None
          | Some ts \<Rightarrow> Some (ts @ map targetId (filter (\<lambda>e. sourceId e = k) es)))"
      by auto
    with a Some show ?thesis
      by (auto simp: g1_def update_conv' split: option.splits)
  qed
qed

lemma buildExecutionGraph_clean:
  assumes "\<forall>n\<in>set ns. nodeId n \<noteq> ''__proto__''"
    and "\<forall>e\<in>set es. sourceId e \<in> nodeId ` set ns \<or>
           (sourceId e \<noteq> ''__proto__'' \<and> sourceId e \<notin> set (object_names rt))"
  shows "\<exists>g. buildExecutionGraph rt ns es = Inr g \<and> proto g = None \<and>
           map_of (own g) k =
             (if k \<in> nodeId ` set ns
              then Some (map targetId (filter (\<lambda>e. sourceId e = k) es))
              else None)"
proof -
  define g0 where "g0 = foldl init_node \<lparr>own = [], proto = None\<rparr> ns"
  have i: "proto g0 = None"
    "\<And>k. map_of (own g0) k = (if k \<in> nodeId ` set ns then Some [] else None)"
    using init_nodes_clean [OF assms(1), of "\<lparr>own = [], proto = None\<rparr>"]
    by (simp_all add: g0_def)
  have d: "\<forall>e\<in>set es. map_of (own g0) (sourceId e) \<noteq> None \<or>
           (sourceId e \<noteq> ''__proto__'' \<and> sourceId e \<notin> set (object_names rt))"
    using assms(2) by (auto simp: i(2))
  from add_edges_clean [OF i(1) d, of k] show ?thesis
    by (auto simp: buildExecutionGraph_def g0_def [symmetric] i(2))
qed

text \<open>
  C5. The claim is that for every list of nodes and every list of edges the function
  returns the adjacency of the declared nodes. For the node \<open>T\<close> and one edge whose
  source is \<open>constructor\<close>, a name no node declares, the lookup \<^verbatim>\<open>graph[edge.sourceId]\<close>
  finds the inherited function, the guard passes, and the call of its \<^verbatim>\<open>push\<close> throws:
  no graph is returned, where the claim has \<open>T\<close> mapped to no targets. On the nodes \<open>T\<close>
  and \<open>A\<close> with the edge from \<open>T\<close> to \<open>A\<close> given twice the function does what the claim
  says.
\<close>

theorem buildExecutionGraph_inherited_source:
  "graph_get demo_runtime \<lparr>own = [(''T'', [])], proto = None\<rparr> ''constructor'' = Function \<and>
   buildExecutionGraph demo_runtime [node_T] [edge_constructor_T] =
     Inl (TypeError ''graph[edge.sourceId].push is not a function'') \<and>
   buildExecutionGraph demo_runtime [node_T, node_A] [edge_TA, edge_TA] =
     Inr \<lparr>own = [(''T'', [''A'', ''A'']), (''A'', [])], proto = None\<rparr>"
  by (simp add: buildExecutionGraph_def init_node_def add_edge_def graph_get_def push_error_def
        demo_runtime_def node_T_def node_A_def edge_TA_def edge_constructor_T_def)

section \<open>Properties of the traversal\<close>

text \<open>
  \<open>getNodeById\<close> is always asked to search the empty list, so the loop over the children
  finds no child node and runs none: it returns the accumulator and the world it got.
\<close>

lemma executeChildren_skips: "executeChildren run cs graph context acc w = (Inr acc, w)"
  by (induction cs) (simp_all add: getNodeById_def)

lemma executeNodeWith_flat:
  "executeNodeWith run node graph context w =
     (let (result, w1) = run node context
            (w\<lparr>console := console w @
                  [''Executing node: '' @ title node @ '' ('' @ type node @ '')'']\<rparr>)
      in case childNodes_of (runtime w1) graph (nodeId node) of
           Inl e \<Rightarrow> (Inl e, w1)
         | Inr childNodes \<Rightarrow> (Inr (spread result (JObj [(''children'', JArr [])])), w1))"
  by (simp add: executeChildren_skips Let_def split: prod.splits sum.splits)

lemma js_get_spread_last: "js_get (spread r (JObj [(k, v)])) k = v"
  by (simp add: spread_def assign_def update_conv')

lemma executeNodeWith_children_empty:
  "(case fst (executeNodeWith run node graph context w) of
      Inl e \<Rightarrow> childNodes_of (runtime (snd (executeNodeWith run node graph context w)))
                 graph (nodeId node) = Inl e
    | Inr r \<Rightarrow> js_get r ''children'' = JArr [])"
  unfolding executeNodeWith_flat
  by (simp add: Let_def split_beta js_get_spread_last split: sum.splits)

text \<open>
  C1. The claim is that a node's children are executed in declared order and that their
  result trees are the \<open>children\<close> of the node's result. On the graph \<open>T \<rightarrow> A\<close> the
  adjacency of \<open>T\<close> is \<open>[A]\<close>, yet \<open>executeNode\<close> on \<open>T\<close> returns an empty \<open>children\<close>
  sequence and the console shows that only \<open>T\<close> was executed. In the route and in the
  scheduler alike, whatever the node and the graph, the call either throws because the
  entry of the node is not iterable, or returns a result whose \<open>children\<close> are empty.
\<close>

theorem executeNode_child_never_run:
  "buildExecutionGraph demo_runtime [node_T, node_A] [edge_TA] =
     Inr \<lparr>own = [(''T'', [''A'']), (''A'', [])], proto = None\<rparr> \<and>
   executeNode node_T \<lparr>own = [(''T'', [''A'']), (''A'', [])], proto = None\<rparr> (JObj [])
       demo_world =
     (Inr (JObj [(''triggered'', JBool True), (''timestamp'', JTime 0),
                 (''children'', JArr [])]),
      demo_world\<lparr>console := [''Executing node: Start (trigger)'']\<rparr>) \<and>
   (case fst (executeNode node graph context w) of
      Inl e \<Rightarrow> childNodes_of (runtime (snd (executeNode node graph context w)))
                 graph (nodeId node) = Inl e
    | Inr r \<Rightarrow> js_get r ''children'' = JArr []) \<and>
   (case fst (scheduler_executeNode node graph context w) of
      Inl e \<Rightarrow> childNodes_of (runtime (snd (scheduler_executeNode node graph context w)))
                 graph (nodeId node) = Inl e
    | Inr r \<Rightarrow> js_get r ''children'' = JArr [])"
proof -
  have general:
    "(case fst (executeNode node graph context w) of
        Inl e \<Rightarrow> childNodes_of (runtime (snd (executeNode node graph context w)))
                   graph (nodeId node) = Inl e
      | Inr r \<Rightarrow> js_get r ''children'' = JArr [])"
    "(case fst (scheduler_executeNode node graph context w) of
        Inl e \<Rightarrow> childNodes_of (runtime (snd (scheduler_executeNode node graph context w)))
                   graph (nodeId node) = Inl e
      | Inr r \<Rightarrow> js_get r ''children'' = JArr [])"
    unfolding executeNode_def scheduler_executeNode_def
    by (rule executeNodeWith_children_empty)+
  have example:
    "buildExecutionGraph demo_runtime [node_T, node_A] [edge_TA] =
       Inr \<lparr>own = [(''T'', [''A'']), (''A'', [])], proto = None\<rparr>"
    "executeNode node_T \<lparr>own = [(''T'', [''A'']), (''A'', [])], proto = None\<rparr> (JObj [])
         demo_world =
       (Inr (JObj [(''triggered'', JBool True), (''timestamp'', JTime 0),
                   (''children'', JArr [])]),
        demo_world\<lparr>console := [''Executing node: Start (trigger)'']\<rparr>)"
    by (simp_all add: executeNode_def executeChildren_skips dispatch_def childNodes_of_def
          graph_get_def node_T_def node_A_def edge_TA_def demo_world_def
          buildExecutionGraph_def init_node_def add_edge_def timestamp_def spread_def
          assign_def)
  from general example show ?thesis by simp
qed

section \<open>What the handlers leave alone\<close>

lemma sleep_store [simp]:
  "executions (sleep ms w) = executions w" "db_trace (sleep ms w) = db_trace w"
  "console (sleep ms w) = console w"
  by (simp_all add: sleep_def)

lemma random_store [simp]:
  "executions (snd (Math_random w)) = executions w"
  "db_trace (snd (Math_random w)) = db_trace w"
  "console (snd (Math_random w)) = console w"
  by (simp_all add: Math_random_def)

lemma handlers_store:
  "executions (snd (executeAction node context w)) = executions w"
  "executions (snd (executeCondition node context w)) = executions w"
  "executions (snd (executeDelay node context w)) = executions w"
  "executions (snd (executeEmail node context w)) = executions w"
  "executions (snd (executeDatabase node context w)) = executions w"
  "executions (snd (executeSlack node context w)) = executions w"
  "executions (snd (executeWebhook node context w)) = executions w"
  by (simp_all add: executeAction_def executeCondition_def executeDelay_def
        executeEmail_def executeDatabase_def executeSlack_def executeWebhook_def Let_def
        split_beta split: sum.splits)

lemma handlers_trace:
  "db_trace (snd (executeAction node context w)) = db_trace w"
  "db_trace (snd (executeCondition node context w)) = db_trace w"
  "db_trace (snd (executeDelay node context w)) = db_trace w"
  "db_trace (snd (executeEmail node context w)) = db_trace w"
  "db_trace (snd (executeDatabase node context w)) = db_trace w"
  "db_trace (snd (executeSlack node context w)) = db_trace w"
  "db_trace (snd (executeWebhook node context w)) = db_trace w"
  by (simp_all add: executeAction_def executeCondition_def executeDelay_def
        executeEmail_def executeDatabase_def executeSlack_def executeWebhook_def Let_def
        split_beta split: sum.splits)

lemma handlers_console:
  "console (snd (executeAction node context w)) = console w"
  "console (snd (executeCondition node context w)) = console w"
  "console (snd (executeDelay node context w)) = console w"
  "console (snd (executeEmail node context w)) = console w"
  "console (snd (executeDatabase node context w)) = console w"
  "console (snd (executeSlack node context w)) = console w"
  "console (snd (executeWebhook node context w)) = console w"
  by (simp_all add: executeAction_def executeCondition_def executeDelay_def
        executeEmail_def executeDatabase_def executeSlack_def executeWebhook_def Let_def
        split_beta split: sum.splits)

lemma dispatch_store:
  "executions (snd (dispatch node context w)) = executions w"
  "db_trace (snd (dispatch node context w)) = db_trace w"
  "console (snd (dispatch node context w)) = console w"
  by (simp_all add: dispatch_def handlers_store handlers_trace handlers_console)

lemma scheduler_dispatch_store:
  "executions (snd (scheduler_dispatch node context w)) = executions w"
  "db_trace (snd (scheduler_dispatch node context w)) = db_trace w"
  "console (snd (scheduler_dispatch node context w)) = console w"
  by (simp_all add: scheduler_dispatch_def handlers_store handlers_trace handlers_console)

lemma executeNode_store:
  "executions (snd (executeNode node graph context w)) = executions w"
  "db_trace (snd (executeNode node graph context w)) = db_trace w"
  "console (snd (executeNode node graph context w)) =
     console w @ [''Executing node: '' @ title node @ '' ('' @ type node @ '')'']"
  unfolding executeNode_def executeNodeWith_flat
  by (simp_all add: Let_def split_beta dispatch_store split: sum.splits)

lemma scheduler_executeNode_store:
  "executions (snd (scheduler_executeNode node graph context w)) = executions w"
  "db_trace (snd (scheduler_executeNode node graph context w)) = db_trace w"
  unfolding scheduler_executeNode_def executeNodeWith_flat
  by (simp_all add: Let_def split_beta scheduler_dispatch_store split: sum.splits)

section \<open>Properties of the engine\<close>

lemma find_trigger_None:
  "filter (\<lambda>n. type n = ''trigger'') ns = [] \<Longrightarrow> find (\<lambda>n. type n = ''trigger'') ns = None"
  by (simp add: find_None_iff filter_empty_conv)

lemma find_first:
  "\<forall>n\<in>set pre. \<not> P n \<Longrightarrow> P t \<Longrightarrow> find P (pre @ t # post) = Some t"
  by (induction pre) auto

lemma updateExecutionStatus_console:
  "console (snd (updateExecutionStatus eid st err out w)) = console w"
  by (simp add: updateExecutionStatus_def db_execution_update_def)

lemma executeWorkflow_console:
  "console (snd (executeWorkflow workflow eid w)) =
     console (snd (executeWorkflow_try workflow eid w))"
  by (simp add: executeWorkflow_def executeWorkflow_catch_def split_beta
        updateExecutionStatus_console split: sum.splits)

lemma executeWorkflow_no_trigger:
  assumes "filter (\<lambda>n. type n = ''trigger'') (nodes workflow) = []"
    and "eid < length (executions w)"
  shows "executeWorkflow workflow eid w =
      (Inr (), w\<lparr>executions := (executions w)
                   [eid := (executions w ! eid)
                      \<lparr>status := ''failed'', error := Some ''No trigger node found in workflow'',
                       completedAt := Some (now w)\<rparr>],
                 db_trace := db_trace w @ [Updated eid ''failed'']\<rparr>)"
  using assms
  by (simp add: executeWorkflow_def executeWorkflow_try_def executeWorkflow_catch_def
        find_trigger_None updateExecutionStatus_def db_execution_update_def)

lemma executeWorkflow_first_trigger:
  assumes "nodes workflow = pre @ t # post" and "type t = ''trigger''"
    and "\<forall>n\<in>set pre. type n \<noteq> ''trigger''"
    and "buildExecutionGraph (runtime w) (nodes workflow) (edges workflow) = Inr g"
  shows "executeWorkflow_try workflow eid w =
      (case executeNode t g (JObj []) w of
         (Inl e, w1) \<Rightarrow> (Inl e, w1)
       | (Inr result, w1) \<Rightarrow> updateExecutionStatus eid ''completed'' Clear result w1)"
    and "console (snd (executeWorkflow workflow eid w)) =
           console w @ [''Executing node: '' @ title t @ '' ('' @ type t @ '')'']"
proof -
  have f: "find (\<lambda>node. type node = ''trigger'') (nodes workflow) = Some t"
    using assms by (simp add: find_first)
  show "executeWorkflow_try workflow eid w =
      (case executeNode t g (JObj []) w of
         (Inl e, w1) \<Rightarrow> (Inl e, w1)
       | (Inr result, w1) \<Rightarrow> updateExecutionStatus eid ''completed'' Clear result w1)"
    by (simp add: executeWorkflow_try_def f assms(4))
  have c: "console (snd (executeNode t g (JObj []) w)) =
      console w @ [''Executing node: '' @ title t @ '' ('' @ type t @ '')'']"
    by (rule executeNode_store)
  have "console (snd (executeWorkflow_try workflow eid w)) =
      console w @ [''Executing node: '' @ title t @ '' ('' @ type t @ '')'']"
    using c
    by (simp add: executeWorkflow_try_def f assms(4) split_beta updateExecutionStatus_console
          split: sum.splits)
  then show "console (snd (executeWorkflow workflow eid w)) =
           console w @ [''Executing node: '' @ title t @ '' ('' @ type t @ '')'']"
    by (simp add: executeWorkflow_console)
qed

text \<open>
  C2, as the code has it. When no node of the workflow has type \<open>trigger\<close>, running it on
  an existing execution persists status \<open>failed\<close>, the completion time and the error
  message \<open>No trigger node found in workflow\<close>. When there is a trigger node and the
  execution graph is built, the traversal starts at the first trigger node of the node
  list: the outcome of the run is the outcome of \<open>executeNode\<close> on it, and its line is the
  one the run writes to the console.
\<close>

theorem executeWorkflow_trigger_lookup:
  "(filter (\<lambda>n. type n = ''trigger'') (nodes workflow) = [] \<and> eid < length (executions w) \<longrightarrow>
      executeWorkflow workflow eid w =
        (Inr (), w\<lparr>executions := (executions w)
                     [eid := (executions w ! eid)
                        \<lparr>status := ''failed'',
                         error := Some ''No trigger node found in workflow'',
                         completedAt := Some (now w)\<rparr>],
                   db_trace := db_trace w @ [Updated eid ''failed'']\<rparr>)) \<and>
   (nodes workflow = pre @ t # post \<and> type t = ''trigger'' \<and>
      (\<forall>n\<in>set pre. type n \<noteq> ''trigger'') \<and>
      buildExecutionGraph (runtime w) (nodes workflow) (edges workflow) = Inr g \<longrightarrow>
      executeWorkflow_try workflow eid w =
        (case executeNode t g (JObj []) w of
           (Inl e, w1) \<Rightarrow> (Inl e, w1)
         | (Inr result, w1) \<Rightarrow> updateExecutionStatus eid ''completed'' Clear result w1) \<and>
      console (snd (executeWorkflow workflow eid w)) =
        console w @ [''Executing node: '' @ title t @ '' ('' @ type t @ '')''])"
  using executeWorkflow_no_trigger [of workflow eid w]
    executeWorkflow_first_trigger [of workflow pre t post w g eid]
  by blast

theorem executeWorkflow_trigger_lookup_witness:
  "executeWorkflow workflow_no_trigger 0 world_one_running =
     (Inr (), world_one_running
        \<lparr>executions := [running_execution
           \<lparr>status := ''failed'', error := Some ''No trigger node found in workflow'',
            completedAt := Some 0\<rparr>],
         db_trace := [Updated 0 ''failed'']\<rparr>) \<and>
   buildExecutionGraph (runtime world_one_running) (nodes workflow_TA) (edges workflow_TA) =
     Inr \<lparr>own = [(''A'', []), (''T'', [''A''])], proto = None\<rparr> \<and>
   console (snd (executeWorkflow workflow_TA 0 world_one_running)) =
     [''Executing node: Start (trigger)'']"
  using executeWorkflow_trigger_lookup [of workflow_no_trigger 0 world_one_running]
    executeWorkflow_trigger_lookup [of workflow_TA 0 world_one_running "[node_A]" node_T "[]"
      "\<lparr>own = [(''A'', []), (''T'', [''A''])], proto = None\<rparr>"]
  by (simp add: workflow_no_trigger_def workflow_TA_def node_A_def node_T_def edge_TA_def
        world_one_running_def demo_world_def buildExecutionGraph_def init_node_def
        add_edge_def graph_get_def demo_runtime_def)

text \<open>
  The claim C2 as it is worded asks for an error message containing \<open>no trigger\<close>. The
  message the code persists starts with a capital letter and does not contain that text.
\<close>

theorem no_trigger_message_counterexample:
  "\<not> (\<exists>m. error (executions (snd (executeWorkflow workflow_no_trigger 0 world_one_running)) ! 0)
             = Some m \<and> js_includes m ''no trigger'')"
  by (simp add: executeWorkflow_no_trigger workflow_no_trigger_def node_A_def
        world_one_running_def demo_world_def)


section \<open>Failure of a run\<close>

text \<open>
  What the \<^verbatim>\<open>try\<close> block can throw: the error of the missing trigger, the \<^verbatim>\<open>TypeError\<close>
  of the edge loop, or the one of the child loop. Whatever it throws, it has written
  nothing to the store; when it succeeds it has written the completion.
\<close>

lemma add_edge_error: "add_edge rt g e = Inl x \<Longrightarrow> x = push_error"
  by (auto simp: add_edge_def split: property.splits if_splits)

lemma add_edges_error: "add_edges rt g es = Inl x \<Longrightarrow> x = push_error"
  by (induction es arbitrary: g) (auto split: sum.splits dest: add_edge_error)

lemma executeNode_error:
  "executeNode node graph context w = (Inl x, w1) \<Longrightarrow> x = iterable_error"
  unfolding executeNode_def executeNodeWith_flat
  by (auto simp: Let_def split_beta childNodes_of_def split: sum.splits property.splits if_splits)

lemma executeWorkflow_try_failed_store:
  assumes "executeWorkflow_try workflow eid w = (Inl e, w1)" and "eid < length (executions w)"
  shows "executions w1 = executions w \<and> db_trace w1 = db_trace w"
proof (cases "find (\<lambda>node. type node = ''trigger'') (nodes workflow)")
  case None
  with assms show ?thesis by (simp add: executeWorkflow_try_def)
next
  case (Some t)
  show ?thesis
  proof (cases "buildExecutionGraph (runtime w) (nodes workflow) (edges workflow)")
    case (Inl x)
    with Some assms show ?thesis by (simp add: executeWorkflow_try_def)
  next
    case (Inr g)
    obtain res w' where r: "executeNode t g (JObj []) w = (res, w')"
      by (cases "executeNode t g (JObj []) w")
    then have st: "executions w' = executions w" "db_trace w' = db_trace w"
      using executeNode_store [of t g "JObj []" w] by simp_all
    show ?thesis
    proof (cases res)
      case (Inl x)
      with Some Inr r assms st show ?thesis by (simp add: executeWorkflow_try_def)
    next
      case (Inr result)
      with Some \<open>buildExecutionGraph (runtime w) (nodes workflow) (edges workflow) = Inr g\<close>
        r assms st
      show ?thesis
        by (simp add: executeWorkflow_try_def updateExecutionStatus_def
              db_execution_update_def)
    qed
  qed
qed

lemma executeWorkflow_try_error:
  assumes "executeWorkflow_try workflow eid w = (Inl e, w1)" and "eid < length (executions w)"
  shows "e = Error ''No trigger node found in workflow'' \<or> e = push_error \<or> e = iterable_error"
proof (cases "find (\<lambda>node. type node = ''trigger'') (nodes workflow)")
  case None
  with assms show ?thesis by (simp add: executeWorkflow_try_def)
next
  case (Some t)
  show ?thesis
  proof (cases "buildExecutionGraph (runtime w) (nodes workflow) (edges workflow)")
    case (Inl x)
    then have "x = push_error" by (simp add: buildExecutionGraph_def add_edges_error)
    with Inl Some assms show ?thesis by (simp add: executeWorkflow_try_def)
  next
    case (Inr g)
    obtain res w' where r: "executeNode t g (JObj []) w = (res, w')"
      by (cases "executeNode t g (JObj []) w")
    then have st: "executions w' = executions w"
      using executeNode_store [of t g "JObj []" w] by simp
    show ?thesis
    proof (cases res)
      case (Inl x)
      with r have "x = iterable_error" using executeNode_error by blast
      with Inl Some Inr r assms show ?thesis by (simp add: executeWorkflow_try_def)
    next
      case (Inr result)
      with Some \<open>buildExecutionGraph (runtime w) (nodes workflow) (edges workflow) = Inr g\<close>
        r assms st
      show ?thesis
        by (simp add: executeWorkflow_try_def updateExecutionStatus_def
              db_execution_update_def)
    qed
  qed
qed

lemma executeWorkflow_try_ok_store:
  assumes "executeWorkflow_try workflow eid w = (Inr u, w1)"
  shows "\<exists>r. executions w1 = (executions w)[eid := (executions w ! eid)
                  \<lparr>status := ''completed'', exec_output := r, error := None,
                   completedAt := Some (now w1)\<rparr>] \<and>
            db_trace w1 = db_trace w @ [Updated eid ''completed'']"
proof (cases "find (\<lambda>node. type node = ''trigger'') (nodes workflow)")
  case None
  with assms show ?thesis by (simp add: executeWorkflow_try_def)
next
  case (Some t)
  show ?thesis
  proof (cases "buildExecutionGraph (runtime w) (nodes workflow) (edges workflow)")
    case (Inl x)
    with Some assms show ?thesis by (simp add: executeWorkflow_try_def)
  next
    case (Inr g)
    obtain res w' where r: "executeNode t g (JObj []) w = (res, w')"
      by (cases "executeNode t g (JObj []) w")
    then have st: "executions w' = executions w" "db_trace w' = db_trace w"
      using executeNode_store [of t g "JObj []" w] by simp_all
    show ?thesis
    proof (cases res)
      case (Inl x)
      with Some Inr r assms show ?thesis by (simp add: executeWorkflow_try_def)
    next
      case (Inr result)
      with Some \<open>buildExecutionGraph (runtime w) (nodes workflow) (edges workflow) = Inr g\<close>
        r assms st
      show ?thesis
        by (auto simp: executeWorkflow_try_def updateExecutionStatus_def
              db_execution_update_def split: if_splits)
    qed
  qed
qed

lemma message_of_cases:
  "message_of e = (case e of Error m \<Rightarrow> m | TypeError m \<Rightarrow> m | Thrown v \<Rightarrow> ''Unknown error'')"
  by (cases e) simp_all

lemma executeWorkflow_catch_persists:
  assumes "eid < length (executions w)"
  shows "executeWorkflow_catch e eid w =
        (Inr (), w\<lparr>executions := (executions w)
                     [eid := (executions w ! eid)
                        \<lparr>status := ''failed'', error := Some (message_of e),
                         completedAt := Some (now w)\<rparr>],
                   db_trace := db_trace w @ [Updated eid ''failed'']\<rparr>)"
  using assms
  by (simp add: executeWorkflow_catch_def updateExecutionStatus_def db_execution_update_def)

lemma executeWorkflow_failed_run:
  assumes tr: "executeWorkflow_try workflow eid w = (Inl e, w1)"
    and lt: "eid < length (executions w)"
  shows "executeWorkflow workflow eid w =
        (Inr (), w1\<lparr>executions := (executions w)
                     [eid := (executions w ! eid)
                        \<lparr>status := ''failed'', error := Some (message_of e),
                         completedAt := Some (now w1)\<rparr>],
                    db_trace := db_trace w @ [Updated eid ''failed'']\<rparr>)"
proof -
  from tr lt have st: "executions w1 = executions w" "db_trace w1 = db_trace w"
    using executeWorkflow_try_failed_store by blast+
  with lt have "eid < length (executions w1)" by simp
  from executeWorkflow_catch_persists [OF this, of e] tr st show ?thesis
    by (simp add: executeWorkflow_def)
qed

lemma executeWorkflow_failed_after_create:
  assumes c: "db_execution_create wfid ''running'' inp w = (eid, w0)"
    and tr: "executeWorkflow_try workflow eid w0 = (Inl e, w1)"
  shows "executions (snd (executeWorkflow workflow eid w0)) ! eid =
      \<lparr>workflowId = wfid, status = ''failed'', input = inp, exec_output = None,
       error = Some (message_of e), startedAt = now w, completedAt = Some (now w1)\<rparr>"
proof -
  from c have eid: "eid = length (executions w)"
    and w0: "executions w0 = executions w @
           [\<lparr>workflowId = wfid, status = ''running'', input = inp, exec_output = None,
             error = None, startedAt = now w, completedAt = None\<rparr>]"
    by (auto simp: db_execution_create_def)
  then have lt: "eid < length (executions w0)" by simp
  show ?thesis
    unfolding executeWorkflow_failed_run [OF tr lt]
    by (simp add: w0 eid)
qed

lemma executeWorkflow_output_changed:
  assumes ne: "exec_output (executions (snd (executeWorkflow workflow eid w)) ! eid)
                 \<noteq> exec_output (executions w ! eid)"
    and lt: "eid < length (executions w)"
  shows "\<exists>w'. executeWorkflow_try workflow eid w = (Inr (), w')"
proof (cases "executeWorkflow_try workflow eid w")
  case (Pair res w1)
  show ?thesis
  proof (cases res)
    case (Inl e)
    with Pair have "executeWorkflow_try workflow eid w = (Inl e, w1)" by simp
    from executeWorkflow_failed_run [OF this lt] lt have
      "exec_output (executions (snd (executeWorkflow workflow eid w)) ! eid) =
         exec_output (executions w ! eid)"
      by simp
    with ne show ?thesis by simp
  next
    case (Inr u)
    with Pair show ?thesis by simp
  qed
qed

text \<open>
  C3. When the \<^verbatim>\<open>try\<close> block of \<open>executeWorkflow\<close> throws \<open>e\<close> for an execution in the
  table, the record is persisted with status \<open>failed\<close>, the completion time, and as its
  error the message of \<open>e\<close> when \<open>e\<close> is an error and \<open>Unknown error\<close> otherwise; no
  other field is written, so no output is persisted. A run that changes the output of
  the record is one whose \<^verbatim>\<open>try\<close> block succeeded. For a record just created, the
  persisted record of a failed run has no output. The \<^verbatim>\<open>catch\<close> block persists the same
  for every thrown value it is given.
\<close>

theorem executeWorkflow_failure_persisted:
  "(executeWorkflow_try workflow eid w = (Inl e, w1) \<and> eid < length (executions w) \<longrightarrow>
      executeWorkflow workflow eid w =
        (Inr (), w1\<lparr>executions := (executions w)
                     [eid := (executions w ! eid)
                        \<lparr>status := ''failed'',
                         error := Some (case e of Error m \<Rightarrow> m | TypeError m \<Rightarrow> m
                                        | Thrown v \<Rightarrow> ''Unknown error''),
                         completedAt := Some (now w1)\<rparr>],
                    db_trace := db_trace w @ [Updated eid ''failed'']\<rparr>)) \<and>
   (exec_output (executions (snd (executeWorkflow workflow eid w)) ! eid)
        \<noteq> exec_output (executions w ! eid) \<and> eid < length (executions w) \<longrightarrow>
      (\<exists>w'. executeWorkflow_try workflow eid w = (Inr (), w'))) \<and>
   (db_execution_create wfid ''running'' inp w2 = (eid', w0) \<and>
      executeWorkflow_try workflow eid' w0 = (Inl e', w1') \<longrightarrow>
      executions (snd (executeWorkflow workflow eid' w0)) ! eid' =
        \<lparr>workflowId = wfid, status = ''failed'', input = inp, exec_output = None,
         error = Some (case e' of Error m \<Rightarrow> m | TypeError m \<Rightarrow> m
                       | Thrown v \<Rightarrow> ''Unknown error''),
         startedAt = now w2, completedAt = Some (now w1')\<rparr>) \<and>
   (eid'' < length (executions w3) \<longrightarrow>
      executeWorkflow_catch e'' eid'' w3 =
        (Inr (), w3\<lparr>executions := (executions w3)
                     [eid'' := (executions w3 ! eid'')
                        \<lparr>status := ''failed'',
                         error := Some (case e'' of Error m \<Rightarrow> m | TypeError m \<Rightarrow> m
                                        | Thrown v \<Rightarrow> ''Unknown error''),
                         completedAt := Some (now w3)\<rparr>],
                    db_trace := db_trace w3 @ [Updated eid'' ''failed'']\<rparr>))"
  using executeWorkflow_failed_run [of workflow eid w e w1]
    executeWorkflow_output_changed [of workflow eid w]
    executeWorkflow_failed_after_create [of wfid inp w2 eid' w0 workflow e' w1']
    executeWorkflow_catch_persists [of eid'' w3 e'']
  unfolding message_of_cases
  by blast


theorem executeWorkflow_failure_persisted_witness:
  "executeWorkflow_try workflow_no_trigger 0 world_one_running =
     (Inl (Error ''No trigger node found in workflow''), world_one_running) \<and>
   executeWorkflow workflow_no_trigger 0 world_one_running =
     (Inr (), world_one_running
        \<lparr>executions := [running_execution
           \<lparr>status := ''failed'', error := Some ''No trigger node found in workflow'',
            completedAt := Some 0\<rparr>],
         db_trace := [Updated 0 ''failed'']\<rparr>) \<and>
   executeWorkflow_try workflow_bad_edge 0 world_one_running =
     (Inl (TypeError ''graph[edge.sourceId].push is not a function''), world_one_running) \<and>
   executeWorkflow workflow_bad_edge 0 world_one_running =
     (Inr (), world_one_running
        \<lparr>executions := [running_execution
           \<lparr>status := ''failed'',
            error := Some ''graph[edge.sourceId].push is not a function'',
            completedAt := Some 0\<rparr>],
         db_trace := [Updated 0 ''failed'']\<rparr>) \<and>
   exec_output (executions (snd (executeWorkflow workflow_TA 0 world_one_running)) ! 0)
     \<noteq> exec_output (executions world_one_running ! 0) \<and>
   (\<exists>w'. executeWorkflow_try workflow_TA 0 world_one_running = (Inr (), w')) \<and>
   db_execution_create ''wf4'' ''running'' (JObj []) demo_world =
     (0, demo_world
        \<lparr>executions := [running_execution\<lparr>workflowId := ''wf4''\<rparr>],
         db_trace := [Created 0 ''running'']\<rparr>) \<and>
   executions (snd (executeWorkflow workflow_bad_edge 0
       (demo_world
          \<lparr>executions := [running_execution\<lparr>workflowId := ''wf4''\<rparr>],
           db_trace := [Created 0 ''running'']\<rparr>))) ! 0 =
     \<lparr>workflowId = ''wf4'', status = ''failed'', input = JObj [], exec_output = None,
      error = Some ''graph[edge.sourceId].push is not a function'', startedAt = 0,
      completedAt = Some 0\<rparr> \<and>
   executeWorkflow_catch (Thrown (JStr ''boom'')) 0 world_one_running =
     (Inr (), world_one_running
        \<lparr>executions := [running_execution
           \<lparr>status := ''failed'', error := Some ''Unknown error'', completedAt := Some 0\<rparr>],
         db_trace := [Updated 0 ''failed'']\<rparr>)"
  using executeWorkflow_failure_persisted
      [where workflow = workflow_no_trigger and eid = 0 and w = world_one_running
         and e = "Error ''No trigger node found in workflow''" and ?w1.0 = world_one_running
         and ?eid'' = 0 and ?w3.0 = world_one_running and ?e'' = "Thrown (JStr ''boom'')"
         and wfid = "''wf4''" and inp = "JObj []" and ?w2.0 = demo_world and ?eid' = 1
         and ?w0.0 = demo_world and ?e' = "Error []" and ?w1' = demo_world]
    executeWorkflow_failure_persisted
      [where workflow = workflow_bad_edge and eid = 0 and w = world_one_running
         and e = "TypeError ''graph[edge.sourceId].push is not a function''"
         and ?w1.0 = world_one_running
         and ?eid'' = 0 and ?w3.0 = world_one_running and ?e'' = "Error []"
         and wfid = "''wf4''" and inp = "JObj []" and ?w2.0 = demo_world and ?eid' = 0
         and ?w0.0 = "demo_world
            \<lparr>executions := [running_execution\<lparr>workflowId := ''wf4''\<rparr>],
             db_trace := [Created 0 ''running'']\<rparr>"
         and ?e' = "TypeError ''graph[edge.sourceId].push is not a function''"
         and ?w1' = "demo_world
            \<lparr>executions := [running_execution\<lparr>workflowId := ''wf4''\<rparr>],
             db_trace := [Created 0 ''running'']\<rparr>"]
    executeWorkflow_failure_persisted
      [where workflow = workflow_TA and eid = 0 and w = world_one_running
         and e = "Error []" and ?w1.0 = world_one_running
         and ?eid'' = 0 and ?w3.0 = world_one_running and ?e'' = "Error []"
         and wfid = "''wf4''" and inp = "JObj []" and ?w2.0 = demo_world and ?eid' = 1
         and ?w0.0 = demo_world and ?e' = "Error []" and ?w1' = demo_world]
  by (simp add: executeWorkflow_try_def executeWorkflow_def executeWorkflow_catch_def
        workflow_no_trigger_def workflow_bad_edge_def workflow_TA_def node_A_def node_T_def
        edge_TA_def edge_constructor_T_def world_one_running_def demo_world_def
        demo_runtime_def running_execution_def db_execution_create_def
        updateExecutionStatus_def db_execution_update_def executeNode_def
        executeChildren_skips dispatch_def childNodes_of_def graph_get_def push_error_def
        buildExecutionGraph_def init_node_def add_edge_def timestamp_def spread_def
        assign_def)


section \<open>Lifecycle of executions\<close>

lemma executeWorkflow_total:
  assumes "eid < length (executions w)"
  shows "\<exists>w' r. executeWorkflow workflow eid w = (Inr (), w') \<and>
           executions w' = (executions w)[eid := r] \<and>
           workflowId r = workflowId (executions w ! eid) \<and>
           status r \<in> {''completed'', ''failed''} \<and> completedAt r \<noteq> None \<and>
           db_trace w' = db_trace w @ [Updated eid (status r)]"
proof (cases "executeWorkflow_try workflow eid w")
  case (Pair res w1)
  show ?thesis
  proof (cases res)
    case (Inl e)
    with Pair have "executeWorkflow_try workflow eid w = (Inl e, w1)" by simp
    from executeWorkflow_failed_run [OF this assms] show ?thesis
      by (intro exI [of _ "(executions w ! eid)
                         \<lparr>status := ''failed'', error := Some (message_of e),
                          completedAt := Some (now w1)\<rparr>"]
            exI [of _ "w1\<lparr>executions := (executions w)
                      [eid := (executions w ! eid)
                         \<lparr>status := ''failed'', error := Some (message_of e),
                          completedAt := Some (now w1)\<rparr>],
                    db_trace := db_trace w @ [Updated eid ''failed'']\<rparr>"]) simp
  next
    case (Inr u)
    with Pair obtain r where
      "executions w1 = (executions w)[eid := (executions w ! eid)
          \<lparr>status := ''completed'', exec_output := r, error := None,
           completedAt := Some (now w1)\<rparr>]"
      "db_trace w1 = db_trace w @ [Updated eid ''completed'']"
      using executeWorkflow_try_ok_store by blast
    with Pair Inr show ?thesis
      by (intro exI [of _ "(executions w ! eid)
          \<lparr>status := ''completed'', exec_output := r, error := None,
           completedAt := Some (now w1)\<rparr>"] exI [of _ w1]) (simp add: executeWorkflow_def)
  qed
qed

lemma runWorkflow_try_failed_store:
  assumes "runWorkflow_try workflow eid w = (Inl e, w1)" and "eid < length (executions w)"
  shows "executions w1 = executions w \<and> db_trace w1 = db_trace w"
proof (cases "find (\<lambda>node. type node = ''trigger'') (nodes workflow)")
  case None
  with assms show ?thesis by (simp add: runWorkflow_try_def)
next
  case (Some t)
  show ?thesis
  proof (cases "buildExecutionGraph (runtime w) (nodes workflow) (edges workflow)")
    case (Inl x)
    with Some assms show ?thesis by (simp add: runWorkflow_try_def)
  next
    case (Inr g)
    obtain res w' where r: "scheduler_executeNode t g (JObj []) w = (res, w')"
      by (cases "scheduler_executeNode t g (JObj []) w")
    then have st: "executions w' = executions w" "db_trace w' = db_trace w"
      using scheduler_executeNode_store [of t g "JObj []" w] by simp_all
    show ?thesis
    proof (cases res)
      case (Inl x)
      with Some Inr r assms st show ?thesis by (simp add: runWorkflow_try_def)
    next
      case (Inr result)
      with Some \<open>buildExecutionGraph (runtime w) (nodes workflow) (edges workflow) = Inr g\<close>
        r assms st
      show ?thesis
        by (simp add: runWorkflow_try_def db_execution_update_def)
    qed
  qed
qed

lemma runWorkflow_try_ok_store:
  assumes "runWorkflow_try workflow eid w = (Inr u, w1)"
  shows "\<exists>r. executions w1 = (executions w)[eid := (executions w ! eid)
                  \<lparr>status := ''completed'', exec_output := r,
                   completedAt := Some (now w1)\<rparr>] \<and>
            db_trace w1 = db_trace w @ [Updated eid ''completed'']"
proof (cases "find (\<lambda>node. type node = ''trigger'') (nodes workflow)")
  case None
  with assms show ?thesis by (simp add: runWorkflow_try_def)
next
  case (Some t)
  show ?thesis
  proof (cases "buildExecutionGraph (runtime w) (nodes workflow) (edges workflow)")
    case (Inl x)
    with Some assms show ?thesis by (simp add: runWorkflow_try_def)
  next
    case (Inr g)
    obtain res w' where r: "scheduler_executeNode t g (JObj []) w = (res, w')"
      by (cases "scheduler_executeNode t g (JObj []) w")
    then have st: "executions w' = executions w" "db_trace w' = db_trace w"
      using scheduler_executeNode_store [of t g "JObj []" w] by simp_all
    show ?thesis
    proof (cases res)
      case (Inl x)
      with Some Inr r assms show ?thesis by (simp add: runWorkflow_try_def)
    next
      case (Inr result)
      with Some \<open>buildExecutionGraph (runtime w) (nodes workflow) (edges workflow) = Inr g\<close>
        r assms st
      show ?thesis
        by (auto simp: runWorkflow_try_def db_execution_update_def split: if_splits)
    qed
  qed
qed

lemma runWorkflow_total:
  assumes "eid < length (executions w)"
  shows "\<exists>w' r. runWorkflow workflow eid w = (Inr (), w') \<and>
           executions w' = (executions w)[eid := r] \<and>
           workflowId r = workflowId (executions w ! eid) \<and>
           status r \<in> {''completed'', ''failed''} \<and> completedAt r \<noteq> None \<and>
           db_trace w' = db_trace w @ [Updated eid (status r)]"
proof (cases "runWorkflow_try workflow eid w")
  case (Pair res w1)
  show ?thesis
  proof (cases res)
    case (Inl e)
    with Pair assms have st: "executions w1 = executions w" "db_trace w1 = db_trace w"
      using runWorkflow_try_failed_store by blast+
    with Pair Inl assms have
      "runWorkflow workflow eid w =
         (Inr (), w1\<lparr>executions := (executions w)
                      [eid := (executions w ! eid)
                         \<lparr>status := ''failed'', error := Some (message_of e),
                          completedAt := Some (now w1)\<rparr>],
                    db_trace := db_trace w @ [Updated eid ''failed'']\<rparr>)"
      by (simp add: runWorkflow_def db_execution_update_def)
    then show ?thesis
      by (intro exI [of _ "(executions w ! eid)
                         \<lparr>status := ''failed'', error := Some (message_of e),
                          completedAt := Some (now w1)\<rparr>"]
            exI [of _ "w1\<lparr>executions := (executions w)
                      [eid := (executions w ! eid)
                         \<lparr>status := ''failed'', error := Some (message_of e),
                          completedAt := Some (now w1)\<rparr>],
                    db_trace := db_trace w @ [Updated eid ''failed'']\<rparr>"]) simp
  next
    case (Inr u)
    with Pair obtain r where
      "executions w1 = (executions w)[eid := (executions w ! eid)
          \<lparr>status := ''completed'', exec_output := r,
           completedAt := Some (now w1)\<rparr>]"
      "db_trace w1 = db_trace w @ [Updated eid ''completed'']"
      using runWorkflow_try_ok_store by blast
    with Pair Inr show ?thesis
      by (intro exI [of _ "(executions w ! eid)
          \<lparr>status := ''completed'', exec_output := r,
           completedAt := Some (now w1)\<rparr>"] exI [of _ w1]) (simp add: runWorkflow_def)
  qed
qed

lemma created_then_finished:
  assumes len: "length (executions w1) = Suc (length (executions w))"
    and tk: "take (length (executions w)) (executions w1) = executions w"
    and wi: "workflowId (executions w1 ! length (executions w)) = i"
    and tr: "db_trace w1 = db_trace w @ [Created (length (executions w)) ''running'']"
    and ex: "executions w' = (executions w1)[length (executions w) := r]"
    and wr: "workflowId r = workflowId (executions w1 ! length (executions w))"
    and st: "status r \<in> {''completed'', ''failed''}" "completedAt r \<noteq> None"
    and tr': "db_trace w' = db_trace w1 @ [Updated (length (executions w)) (status r)]"
  shows "run_recorded i w w'"
proof -
  have "take (length (executions w)) (executions w') = executions w"
    using ex tk by simp
  moreover have "length (executions w') = Suc (length (executions w))" using ex len by simp
  moreover have "executions w' ! length (executions w) = r" using ex len by simp
  ultimately show ?thesis
    using st tr tr' wi wr by (simp add: run_recorded_def)
qed

lemma create_facts:
  "fst (db_execution_create i st inp w) = length (executions w)"
  "length (executions (snd (db_execution_create i st inp w))) = Suc (length (executions w))"
  "take (length (executions w)) (executions (snd (db_execution_create i st inp w))) =
     executions w"
  "workflowId (executions (snd (db_execution_create i st inp w)) ! length (executions w)) = i"
  "db_trace (snd (db_execution_create i st inp w)) =
     db_trace w @ [Created (length (executions w)) st]"
  by (simp_all add: db_execution_create_def)

lemma POST_records_run:
  assumes "db_workflow_findUnique i w = Some workflow" and "isActive workflow"
  shows "run_recorded i w (snd (POST i w))"
proof -
  define w1 where "w1 = snd (db_execution_create i ''running'' (JObj []) w)"
  define n where "n = length (executions w)"
  have c: "db_execution_create i ''running'' (JObj []) w = (n, w1)"
    unfolding w1_def n_def by (simp add: db_execution_create_def)
  have "n < length (executions w1)" by (simp add: w1_def n_def create_facts)
  from executeWorkflow_total [OF this, of workflow] obtain w' r where
    run: "executeWorkflow workflow n w1 = (Inr (), w')"
    and ex: "executions w' = (executions w1)[n := r]"
    and wr: "workflowId r = workflowId (executions w1 ! n)"
    and st: "status r \<in> {''completed'', ''failed''}" "completedAt r \<noteq> None"
    and tr': "db_trace w' = db_trace w1 @ [Updated n (status r)]"
    by blast
  have "snd (POST i w) = w'"
    using assms c run by (simp add: POST_def)
  moreover have "run_recorded i w w'"
    using ex st tr' wr unfolding n_def
    by (intro created_then_finished [where r = r and ?w1.0 = w1])
       (simp_all add: w1_def create_facts)
  ultimately show ?thesis by simp
qed

lemma executeScheduledWorkflow_records_run:
  assumes "db_workflow_findUnique i w = Some workflow" and "isActive workflow"
  shows "run_recorded i w (executeScheduledWorkflow i w)"
proof -
  define w1 where
    "w1 = snd (db_execution_create i ''running'' (JObj [(''triggeredBy'', JStr ''scheduler'')]) w)"
  define n where "n = length (executions w)"
  have c: "db_execution_create i ''running'' (JObj [(''triggeredBy'', JStr ''scheduler'')]) w
             = (n, w1)"
    unfolding w1_def n_def by (simp add: db_execution_create_def)
  have "n < length (executions w1)" by (simp add: w1_def n_def create_facts)
  from runWorkflow_total [OF this, of workflow] obtain w' r where
    run: "runWorkflow workflow n w1 = (Inr (), w')"
    and ex: "executions w' = (executions w1)[n := r]"
    and wr: "workflowId r = workflowId (executions w1 ! n)"
    and st: "status r \<in> {''completed'', ''failed''}" "completedAt r \<noteq> None"
    and tr': "db_trace w' = db_trace w1 @ [Updated n (status r)]"
    by blast
  have "executeScheduledWorkflow i w = w'"
    using assms c run by (simp add: executeScheduledWorkflow_def)
  moreover have "run_recorded i w w'"
    using ex st tr' wr unfolding n_def
    by (intro created_then_finished [where r = r and ?w1.0 = w1])
       (simp_all add: w1_def create_facts)
  ultimately show ?thesis by simp
qed

lemma no_run_without_active_workflow:
  assumes "\<not> (\<exists>workflow. db_workflow_findUnique i w = Some workflow \<and> isActive workflow)"
  shows "nothing_written w (snd (POST i w))"
    and "nothing_written w (executeScheduledWorkflow i w)"
  using assms
  by (auto simp: POST_def executeScheduledWorkflow_def nothing_written_def
        split: option.splits)

text \<open>
  C9. The two operations that write executions are the run-now route and the firing of a
  scheduled timer. For a workflow that is stored and active, each of them leaves every
  existing record as it was (so a finished execution is never moved again) and adds
  exactly one record: created with status \<open>running\<close>, then updated exactly once, to
  \<open>completed\<close> or \<open>failed\<close>, with \<open>completedAt\<close> set. For any other identifier they write
  nothing.
\<close>

theorem execution_lifecycle:
  "(db_workflow_findUnique i w = Some workflow \<and> isActive workflow \<longrightarrow>
      run_recorded i w (snd (POST i w)) \<and> run_recorded i w (executeScheduledWorkflow i w)) \<and>
   (\<not> (\<exists>workflow. db_workflow_findUnique i w = Some workflow \<and> isActive workflow) \<longrightarrow>
      nothing_written w (snd (POST i w)) \<and> nothing_written w (executeScheduledWorkflow i w))"
  using POST_records_run [of i w workflow] executeScheduledWorkflow_records_run [of i w workflow]
    no_run_without_active_workflow [of i w]
  by blast

theorem execution_lifecycle_witness:
  "db_workflow_findUnique ''wf2'' world_active = Some workflow_TA \<and> isActive workflow_TA \<and>
   run_recorded ''wf2'' world_active (snd (POST ''wf2'' world_active)) \<and>
   db_trace (snd (POST ''wf2'' world_active)) = [Created 0 ''running'', Updated 0 ''completed''] \<and>
   map status (executions (snd (POST ''wf2'' world_active))) = [''completed''] \<and>
   run_recorded ''wf2'' world_active (executeScheduledWorkflow ''wf2'' world_active) \<and>
   db_trace (executeScheduledWorkflow ''wf2'' world_active) =
     [Created 0 ''running'', Updated 0 ''completed''] \<and>
   \<not> (\<exists>workflow. db_workflow_findUnique ''wf3'' world_inactive = Some workflow \<and>
        isActive workflow) \<and>
   nothing_written world_inactive (snd (POST ''wf3'' world_inactive)) \<and>
   nothing_written world_inactive (executeScheduledWorkflow ''wf3'' world_inactive)"
  using execution_lifecycle [of "''wf2''" world_active workflow_TA]
    execution_lifecycle [of "''wf3''" world_inactive workflow_inactive]
  by (simp add: POST_def executeScheduledWorkflow_def db_workflow_findUnique_def
        world_active_def world_inactive_def workflow_TA_def workflow_inactive_def
        executeWorkflow_def executeWorkflow_try_def runWorkflow_def runWorkflow_try_def
        node_A_def node_T_def edge_TA_def demo_world_def demo_runtime_def
        db_execution_create_def updateExecutionStatus_def db_execution_update_def
        executeNode_def scheduler_executeNode_def executeChildren_skips dispatch_def
        scheduler_dispatch_def childNodes_of_def graph_get_def buildExecutionGraph_def
        init_node_def add_edge_def timestamp_def spread_def assign_def)


section \<open>The run-now route and inactive workflows\<close>

text \<open>
  C10. For a workflow that is stored and not active, the route answers with status 400
  and the error \<open>Workflow is not active\<close>, and the world is the one it got: no execution
  record is created and nothing is written to the store.
\<close>

theorem POST_inactive_rejected:
  "db_workflow_findUnique i w = Some workflow \<Longrightarrow> \<not> isActive workflow \<Longrightarrow>
     POST i w = (\<lparr>code = 400, body = JObj [(''error'', JStr ''Workflow is not active'')]\<rparr>, w)"
  by (simp add: POST_def)

theorem POST_inactive_rejected_witness:
  "db_workflow_findUnique ''wf3'' world_inactive = Some workflow_inactive \<and>
   \<not> isActive workflow_inactive \<and>
   POST ''wf3'' world_inactive =
     (\<lparr>code = 400, body = JObj [(''error'', JStr ''Workflow is not active'')]\<rparr>, world_inactive) \<and>
   executions (snd (POST ''wf3'' world_inactive)) = []"
  using POST_inactive_rejected [of "''wf3''" world_inactive workflow_inactive]
  by (simp add: db_workflow_findUnique_def world_inactive_def workflow_inactive_def
        demo_world_def)

section \<open>Handlers\<close>

lemma sendMessage_returns: "\<exists>r. sendMessage m w = Inr r"
  by (simp add: sendMessage_def split: option.splits api_outcome.splits)

lemma executeSlack_sent:
  "js_get (fst (executeSlack node context w)) ''sent'' = JBool True"
proof -
  obtain r where
    "sendMessage
       \<lparr>channel = js_or (js_get (config node) ''channel'') (JStr ''#general''),
        msg_text = js_or (js_get (config node) ''message'')
                     (JStr (''Workflow executed: '' @ title node)),
        blocks = js_get (config node) ''blocks''\<rparr> (sleep (JNum 1500) w) = Inr r"
    using sendMessage_returns by blast
  then show ?thesis
    by (simp add: executeSlack_def Let_def)
qed

text \<open>
  C4. The claim is that a Slack node whose dispatch fails reports \<open>sent: false\<close> and the
  error. With the service configured and the API answering \<^verbatim>\<open>ok: false\<close>,
  \<open>sendMessage\<close> returns \<open>success: false\<close> with the error without throwing, and
  \<open>executeSlack\<close> reports \<open>sent: true\<close>, \<open>realMessage: false\<close> and no error. Since
  \<open>sendMessage\<close> never throws, \<open>sent\<close> is true in every result of the handler.
\<close>

theorem executeSlack_failed_dispatch_reports_sent:
  "isConfigured slack_failing \<and>
   sendMessage \<lparr>channel = JStr ''#general'', msg_text = JStr ''Workflow executed: Notify'',
                blocks = JUndefined\<rparr> (sleep (JNum 1500) slack_failing) =
     Inr (JObj [(''success'', JBool False), (''error'', JStr ''channel_not_found'')]) \<and>
   executeSlack node_S (JObj []) slack_failing =
     (JObj [(''slack'', JStr ''Notify''), (''sent'', JBool True),
            (''channel'', JStr ''#general''), (''message'', JStr ''Workflow executed: Notify''),
            (''realMessage'', JBool False), (''timestamp'', JTime 1500)],
      slack_failing\<lparr>now := 1500\<rparr>) \<and>
   js_get (fst (executeSlack node context w)) ''sent'' = JBool True"
proof -
  have example:
    "isConfigured slack_failing"
    "sendMessage \<lparr>channel = JStr ''#general'', msg_text = JStr ''Workflow executed: Notify'',
                  blocks = JUndefined\<rparr> (sleep (JNum 1500) slack_failing) =
       Inr (JObj [(''success'', JBool False), (''error'', JStr ''channel_not_found'')])"
    "executeSlack node_S (JObj []) slack_failing =
       (JObj [(''slack'', JStr ''Notify''), (''sent'', JBool True),
              (''channel'', JStr ''#general''),
              (''message'', JStr ''Workflow executed: Notify''),
              (''realMessage'', JBool False), (''timestamp'', JTime 1500)],
        slack_failing\<lparr>now := 1500\<rparr>)"
    by (simp_all add: executeSlack_def sendMessage_def isConfigured_def slack_failing_def
          demo_world_def node_S_def sleep_def clamp_timeout_def js_or_def timestamp_def)
  from example executeSlack_sent show ?thesis by simp
qed

text \<open>
  C8, as the code has it. A delay node whose \<open>config.delayMs\<close> is a number from 1 to
  \<open>2\<^sup>3\<^sup>1 - 1\<close> suspends its path for that many milliseconds and reports them as its
  duration, with \<open>delayed: true\<close>; when \<open>config.delayMs\<close> is absent or falsy, the number
  0 included, it suspends for the default 2000 ms and reports 2000.
\<close>

theorem executeDelay_duration:
  "(js_get (config node) ''delayMs'' = JNum n \<and> 1 \<le> n \<and> n \<le> 2147483647 \<longrightarrow>
      executeDelay node context w =
        (JObj [(''delay'', JStr (title node)), (''delayed'', JBool True),
               (''duration'', JNum n), (''timestamp'', JTime (now w + nat n))],
         w\<lparr>now := now w + nat n\<rparr>)) \<and>
   (\<not> truthy (js_get (config node) ''delayMs'') \<longrightarrow>
      executeDelay node context w =
        (JObj [(''delay'', JStr (title node)), (''delayed'', JBool True),
               (''duration'', JNum 2000), (''timestamp'', JTime (now w + 2000))],
         w\<lparr>now := now w + 2000\<rparr>))"
  by (simp add: executeDelay_def js_or_def sleep_def clamp_timeout_def timestamp_def Let_def)

theorem executeDelay_duration_witness:
  "executeDelay node_D100 (JObj []) demo_world =
     (JObj [(''delay'', JStr ''Wait''), (''delayed'', JBool True),
            (''duration'', JNum 100), (''timestamp'', JTime 100)], demo_world\<lparr>now := 100\<rparr>) \<and>
   executeDelay node_A (JObj []) demo_world =
     (JObj [(''delay'', JStr ''Act''), (''delayed'', JBool True),
            (''duration'', JNum 2000), (''timestamp'', JTime 2000)], demo_world\<lparr>now := 2000\<rparr>) \<and>
   executeDelay node_D0 (JObj []) demo_world =
     (JObj [(''delay'', JStr ''Wait''), (''delayed'', JBool True),
            (''duration'', JNum 2000), (''timestamp'', JTime 2000)], demo_world\<lparr>now := 2000\<rparr>)"
  using executeDelay_duration [of node_D100 100 "JObj []" demo_world]
    executeDelay_duration [of node_A 0 "JObj []" demo_world]
    executeDelay_duration [of node_D0 0 "JObj []" demo_world]
  by (simp add: node_D100_def node_A_def node_D0_def demo_world_def)

text \<open>
  The claim C8 as it is worded has a node with \<open>config.delayMs = 0\<close> suspend for 0 ms.
  It suspends for 2000 ms and reports a duration of 2000.
\<close>

theorem executeDelay_zero_counterexample:
  "js_get (config node_D0) ''delayMs'' = JNum 0 \<and>
   now (snd (executeDelay node_D0 (JObj []) demo_world)) \<noteq> now demo_world + 0 \<and>
   now (snd (executeDelay node_D0 (JObj []) demo_world)) = now demo_world + 2000 \<and>
   js_get (fst (executeDelay node_D0 (JObj []) demo_world)) ''duration'' = JNum 2000"
  by (simp add: executeDelay_def js_or_def sleep_def clamp_timeout_def node_D0_def
        demo_world_def Let_def)

section \<open>Properties of the scheduler\<close>

lemma delete_absent: "map_of al k = None \<Longrightarrow> AList.delete k al = al"
  by (induction al) (auto split: if_splits)

lemma filter_key_delete: "filter (\<lambda>(k, b). k = i) (AList.delete i al) = []"
  by (induction al) auto

lemma filter_key_update_fresh:
  "filter (\<lambda>(k, b). k = i) al = [] \<Longrightarrow> filter (\<lambda>(k, b). k = i) (AList.update i v al) = [(i, v)]"
  by (induction al) auto

lemma unscheduleWorkflow_bindings:
  "scheduledWorkflows (unscheduleWorkflow i s) = AList.delete i (scheduledWorkflows s)"
  by (simp add: unscheduleWorkflow_def delete_absent split: option.splits)

lemma unscheduleWorkflow_tasks:
  "tasks (unscheduleWorkflow i s) =
     (case map_of (scheduledWorkflows s) i of
        None \<Rightarrow> tasks s
      | Some b \<Rightarrow> task_stop (task b) (tasks s))"
  by (simp add: unscheduleWorkflow_def split: option.splits)

lemma task_stop_length [simp]: "length (task_stop t ts) = length ts"
  by (simp add: task_stop_def)

lemma unscheduleWorkflow_length [simp]:
  "length (tasks (unscheduleWorkflow i s)) = length (tasks s)"
  by (simp add: unscheduleWorkflow_tasks split: option.splits)

lemma scheduleWorkflow_valid:
  assumes "validate e"
  shows "scheduleWorkflow validate i e s =
     (Inr (),
      s\<lparr>scheduledWorkflows :=
          AList.update i \<lparr>sw_id = i, sw_workflowId = i, sw_schedule = e,
                          task = length (tasks s)\<rparr>
            (AList.delete i (scheduledWorkflows s)),
        tasks := tasks (unscheduleWorkflow i s) @
                   [\<lparr>expression = e, job = i, started = True\<rparr>]\<rparr>)"
  using assms
  by (cases "map_of (scheduledWorkflows s) i")
     (simp_all add: scheduleWorkflow_def Let_def task_start_def unscheduleWorkflow_def
        delete_absent)

text \<open>
  C6. Two calls of \<open>scheduleWorkflow\<close> for the same workflow with valid expressions both
  return, and leave exactly one binding for the workflow in the map: it holds the second
  expression and its task is started. The binding the first call made held the first
  expression with a started task, and that task is stopped after the second call.
\<close>

theorem scheduleWorkflow_twice:
  assumes "validate e1" and "validate e2"
  shows "\<exists>s1 s2. scheduleWorkflow validate i e1 s = (Inr (), s1) \<and>
           scheduleWorkflow validate i e2 s1 = (Inr (), s2) \<and>
           filter (\<lambda>(k, b). k = i) (scheduledWorkflows s2) =
             [(i, \<lparr>sw_id = i, sw_workflowId = i, sw_schedule = e2,
                   task = Suc (length (tasks s))\<rparr>)] \<and>
           tasks s2 ! Suc (length (tasks s)) = \<lparr>expression = e2, job = i, started = True\<rparr> \<and>
           map_of (scheduledWorkflows s1) i =
             Some \<lparr>sw_id = i, sw_workflowId = i, sw_schedule = e1, task = length (tasks s)\<rparr> \<and>
           tasks s1 ! length (tasks s) = \<lparr>expression = e1, job = i, started = True\<rparr> \<and>
           tasks s2 ! length (tasks s) = \<lparr>expression = e1, job = i, started = False\<rparr>"
proof -
  define T where "T = tasks (unscheduleWorkflow i s)"
  define s1 where "s1 = snd (scheduleWorkflow validate i e1 s)"
  define s2 where "s2 = snd (scheduleWorkflow validate i e2 s1)"
  have lenT: "length T = length (tasks s)" by (simp add: T_def)
  have r1: "scheduleWorkflow validate i e1 s = (Inr (), s1)"
    by (simp add: s1_def scheduleWorkflow_valid [of validate e1, OF assms(1)])
  have r2: "scheduleWorkflow validate i e2 s1 = (Inr (), s2)"
    by (simp add: s2_def scheduleWorkflow_valid [of validate e2, OF assms(2)])
  have b1: "map_of (scheduledWorkflows s1) i =
      Some \<lparr>sw_id = i, sw_workflowId = i, sw_schedule = e1, task = length (tasks s)\<rparr>"
    by (simp add: s1_def scheduleWorkflow_valid [of validate e1, OF assms(1)] update_conv')
  have t1: "tasks s1 = T @ [\<lparr>expression = e1, job = i, started = True\<rparr>]"
    by (simp add: s1_def scheduleWorkflow_valid [of validate e1, OF assms(1)] T_def)
  have u: "tasks (unscheduleWorkflow i s1) = T @ [\<lparr>expression = e1, job = i, started = False\<rparr>]"
    by (simp add: unscheduleWorkflow_tasks b1 t1 task_stop_def lenT [symmetric])
  have t2: "tasks s2 = T @ [\<lparr>expression = e1, job = i, started = False\<rparr>,
                            \<lparr>expression = e2, job = i, started = True\<rparr>]"
    by (simp add: s2_def scheduleWorkflow_valid [of validate e2, OF assms(2)] u)
  have m2: "scheduledWorkflows s2 =
      AList.update i \<lparr>sw_id = i, sw_workflowId = i, sw_schedule = e2,
                      task = Suc (length (tasks s))\<rparr>
        (AList.delete i (scheduledWorkflows s1))"
    by (simp add: s2_def scheduleWorkflow_valid [of validate e2, OF assms(2)] t1 lenT)
  have f2: "filter (\<lambda>(k, b). k = i) (scheduledWorkflows s2) =
             [(i, \<lparr>sw_id = i, sw_workflowId = i, sw_schedule = e2,
                   task = Suc (length (tasks s))\<rparr>)]"
    unfolding m2 by (rule filter_key_update_fresh) (rule filter_key_delete)
  show ?thesis
    using r1 r2 f2 b1
    by (intro exI [of _ s1] exI [of _ s2]) (simp add: t1 t2 lenT [symmetric] nth_append)
qed

theorem scheduleWorkflow_twice_witness:
  "demo_validate ''0 9 * * *'' \<and> demo_validate ''*/5 * * * *'' \<and>
   (\<exists>s1 s2.
      scheduleWorkflow demo_validate ''wf1'' ''0 9 * * *'' empty_scheduler = (Inr (), s1) \<and>
      scheduleWorkflow demo_validate ''wf1'' ''*/5 * * * *'' s1 = (Inr (), s2) \<and>
      filter (\<lambda>(k, b). k = ''wf1'') (scheduledWorkflows s2) =
        [(''wf1'', \<lparr>sw_id = ''wf1'', sw_workflowId = ''wf1'', sw_schedule = ''*/5 * * * *'',
                    task = 1\<rparr>)] \<and>
      tasks s2 ! 1 = \<lparr>expression = ''*/5 * * * *'', job = ''wf1'', started = True\<rparr> \<and>
      tasks s2 ! 0 = \<lparr>expression = ''0 9 * * *'', job = ''wf1'', started = False\<rparr>)"
proof -
  have v: "demo_validate ''0 9 * * *''" "demo_validate ''*/5 * * * *''"
    by (simp_all add: demo_validate_def)
  from scheduleWorkflow_twice [of demo_validate "''0 9 * * *''" "''*/5 * * * *''" "''wf1''"
      empty_scheduler, OF v]
  obtain s1 s2 where
    "scheduleWorkflow demo_validate ''wf1'' ''0 9 * * *'' empty_scheduler = (Inr (), s1)"
    "scheduleWorkflow demo_validate ''wf1'' ''*/5 * * * *'' s1 = (Inr (), s2)"
    "filter (\<lambda>(k, b). k = ''wf1'') (scheduledWorkflows s2) =
        [(''wf1'', \<lparr>sw_id = ''wf1'', sw_workflowId = ''wf1'', sw_schedule = ''*/5 * * * *'',
                    task = Suc (length (tasks empty_scheduler))\<rparr>)]"
    "tasks s2 ! Suc (length (tasks empty_scheduler)) =
        \<lparr>expression = ''*/5 * * * *'', job = ''wf1'', started = True\<rparr>"
    "tasks s2 ! length (tasks empty_scheduler) =
        \<lparr>expression = ''0 9 * * *'', job = ''wf1'', started = False\<rparr>"
    by blast
  then show ?thesis
    using v by (intro conjI exI [of _ s1] exI [of _ s2]) (simp_all add: empty_scheduler_def)
qed

text \<open>
  C7, as the code has it. For an expression the validator rejects, \<open>scheduleWorkflow\<close>
  throws an error that names the expression, and the scheduler's state is the one before
  the call: the map and every task, a prior binding of the workflow included, are
  untouched. With the validator of the cron library, that is every expression that is
  neither a valid five-field one nor a valid six-field one.
\<close>

theorem scheduleWorkflow_invalid:
  "(\<not> validate e \<longrightarrow>
      scheduleWorkflow validate i e s =
        (Inl (Error (''Invalid cron expression: '' @ e)), s)) \<and>
   (\<not> valid_five_field e' \<and> \<not> valid_six_field e' \<longrightarrow>
      scheduleWorkflow node_cron_validate i' e' s' =
        (Inl (Error (''Invalid cron expression: '' @ e')), s'))"
  by (simp add: scheduleWorkflow_def node_cron_validate_def)

theorem scheduleWorkflow_invalid_witness:
  "\<not> demo_validate ''not-a-cron'' \<and>
   scheduleWorkflow demo_validate ''wf1'' ''not-a-cron''
       (snd (scheduleWorkflow demo_validate ''wf1'' ''0 9 * * *'' empty_scheduler)) =
     (Inl (Error ''Invalid cron expression: not-a-cron''),
      \<lparr>scheduledWorkflows =
         [(''wf1'', \<lparr>sw_id = ''wf1'', sw_workflowId = ''wf1'', sw_schedule = ''0 9 * * *'',
                     task = 0\<rparr>)],
       tasks = [\<lparr>expression = ''0 9 * * *'', job = ''wf1'', started = True\<rparr>]\<rparr>) \<and>
   \<not> valid_five_field ''not-a-cron'' \<and> \<not> valid_six_field ''not-a-cron'' \<and>
   scheduleWorkflow node_cron_validate ''wf1'' ''not-a-cron''
       (snd (scheduleWorkflow demo_validate ''wf1'' ''0 9 * * *'' empty_scheduler)) =
     (Inl (Error ''Invalid cron expression: not-a-cron''),
      \<lparr>scheduledWorkflows =
         [(''wf1'', \<lparr>sw_id = ''wf1'', sw_workflowId = ''wf1'', sw_schedule = ''0 9 * * *'',
                     task = 0\<rparr>)],
       tasks = [\<lparr>expression = ''0 9 * * *'', job = ''wf1'', started = True\<rparr>]\<rparr>)"
proof -
  have f: "cron_fields ''not-a-cron'' = [''not-a-cron'']"
    by (simp add: cron_fields_def)
  have v: "\<not> valid_five_field ''not-a-cron''" "\<not> valid_six_field ''not-a-cron''"
    by (simp_all add: valid_five_field_def valid_six_field_def five_fields_ok_def f)
  have d: "\<not> demo_validate ''not-a-cron''"
    by (simp add: demo_validate_def)
  have s: "snd (scheduleWorkflow demo_validate ''wf1'' ''0 9 * * *'' empty_scheduler) =
      \<lparr>scheduledWorkflows =
         [(''wf1'', \<lparr>sw_id = ''wf1'', sw_workflowId = ''wf1'', sw_schedule = ''0 9 * * *'',
                     task = 0\<rparr>)],
       tasks = [\<lparr>expression = ''0 9 * * *'', job = ''wf1'', started = True\<rparr>]\<rparr>"
    by (simp add: demo_validate_def scheduleWorkflow_def unscheduleWorkflow_def
          empty_scheduler_def task_start_def Let_def)
  from scheduleWorkflow_invalid
      [of demo_validate "''not-a-cron''" "''wf1''"
          "snd (scheduleWorkflow demo_validate ''wf1'' ''0 9 * * *'' empty_scheduler)"
          "''not-a-cron''" "''wf1''"
          "snd (scheduleWorkflow demo_validate ''wf1'' ''0 9 * * *'' empty_scheduler)"]
    v d
  show ?thesis by (simp add: s)
qed

text \<open>
  The claim C7 as it is worded has \<open>scheduleWorkflow\<close> throw for every string that is not
  a valid five-field expression. The expression \<^verbatim>\<open>*/10 * * * * *\<close> has six fields, the
  first for the seconds; the validator accepts it and the workflow is scheduled.
\<close>

theorem six_field_expression_counterexample:
  "\<not> valid_five_field ''*/10 * * * * *'' \<and>
   valid_six_field ''*/10 * * * * *'' \<and>
   node_cron_validate ''*/10 * * * * *'' \<and>
   scheduleWorkflow node_cron_validate ''wf1'' ''*/10 * * * * *'' empty_scheduler =
     (Inr (),
      \<lparr>scheduledWorkflows =
         [(''wf1'', \<lparr>sw_id = ''wf1'', sw_workflowId = ''wf1'',
                     sw_schedule = ''*/10 * * * * *'', task = 0\<rparr>)],
       tasks = [\<lparr>expression = ''*/10 * * * * *'', job = ''wf1'', started = True\<rparr>]\<rparr>)"
proof -
  have f: "cron_fields ''*/10 * * * * *'' = [''*/10'', ''*'', ''*'', ''*'', ''*'', ''*'']"
    by (simp add: cron_fields_def)
  have star: "\<And>lo hi names. field_ok lo hi names ''*''"
    by (simp add: field_ok_def item_ok_def)
  have step: "field_ok 0 59 [] ''*/10''"
    by (simp add: field_ok_def item_ok_def number_ok_def is_digit_def decimal_def)
  have five: "\<not> valid_five_field ''*/10 * * * * *''"
    by (simp add: valid_five_field_def five_fields_ok_def f)
  have six: "node_cron_validate ''*/10 * * * * *''"
    by (simp add: node_cron_validate_def valid_six_field_def five_fields_ok_def f star step)
  have six': "valid_six_field ''*/10 * * * * *''"
    by (simp add: valid_six_field_def five_fields_ok_def f star step)
  from five six six' show ?thesis
    by (simp add: scheduleWorkflow_def unscheduleWorkflow_def empty_scheduler_def
          task_start_def Let_def)
qed

end
